theory Spec2Isabelle
  imports Complex_Main "HOL-Library.Sublist"
begin

text \<open>
  A shallow embedding of the core of \<^verbatim>\<open>Monitor.py\<close>: the classifiers
  \<^verbatim>\<open>calcular_status_timeline\<close>, \<^verbatim>\<open>calcular_status_tempo\<close>,
  \<^verbatim>\<open>calcular_status_percentual\<close> and \<^verbatim>\<open>identificar_divergencias\<close>, the parser
  \<^verbatim>\<open>parse_tempo_validade_to_days\<close>, the integration of the three extracts in
  \<^verbatim>\<open>carregar_dados\<close> and the filter engine \<^verbatim>\<open>apply_filters\<close>. The definitions come
  first, the theorems after them.
\<close>

section \<open>Dates\<close>

text \<open>
  A pandas \<^verbatim>\<open>Timestamp\<close> is a count of nanoseconds since 1970-01-01 00:00; \<^verbatim>\<open>NaT\<close>
  is \<open>None\<close> of \<open>timestamp option\<close>. The difference of two timestamps is a
  \<^verbatim>\<open>Timedelta\<close>, whose \<^verbatim>\<open>.days\<close> is the floor of the difference in days
  (\<open>div\<close> on \<open>int\<close> rounds down, as \<^verbatim>\<open>.days\<close> does). \<^verbatim>\<open>.dt.year\<close> is the year of
  the proleptic Gregorian calendar day the timestamp falls on.
\<close>

type_synonym timestamp = int

definition ns_per_day :: int where
  "ns_per_day = 86400000000000"

definition days_from_civil :: "int \<Rightarrow> int \<Rightarrow> int \<Rightarrow> int" where
  "days_from_civil y0 m d =
     (let y = (if m \<le> 2 then y0 - 1 else y0);
          era = y div 400;
          yoe = y - era * 400;
          doy = (153 * (if m > 2 then m - 3 else m + 9) + 2) div 5 + d - 1;
          doe = yoe * 365 + yoe div 4 - yoe div 100 + doy
      in era * 146097 + doe - 719468)"

definition civil_year :: "int \<Rightarrow> int" where
  "civil_year z0 =
     (let z = z0 + 719468;
          era = z div 146097;
          doe = z - era * 146097;
          yoe = (doe - doe div 1460 + doe div 36524 - doe div 146096) div 365;
          doy = doe - (365 * yoe + yoe div 4 - yoe div 100);
          mp = (5 * doy + 2) div 153;
          m = (if mp < 10 then mp + 3 else mp - 9)
      in yoe + era * 400 + (if m \<le> 2 then 1 else 0))"

definition Timestamp :: "int \<Rightarrow> int \<Rightarrow> int \<Rightarrow> timestamp" where
  \<comment> \<open>\<^verbatim>\<open>pd.Timestamp(year, month, day)\<close>: midnight of that day\<close>
  "Timestamp y m d = days_from_civil y m d * ns_per_day"

definition dt_year :: "timestamp \<Rightarrow> int" where
  "dt_year t = civil_year (t div ns_per_day)"

definition dt_days :: "timestamp option \<Rightarrow> timestamp option \<Rightarrow> int option" where
  \<comment> \<open>\<^verbatim>\<open>(a - b).dt.days\<close>; missing as soon as one side is \<^verbatim>\<open>NaT\<close>\<close>
  "dt_days a b =
     (case (a, b) of (Some x, Some y) \<Rightarrow> Some ((x - y) div ns_per_day) | _ \<Rightarrow> None)"

definition fillna :: "'a option \<Rightarrow> 'a option \<Rightarrow> 'a option" where
  "fillna a b = (case a of Some x \<Rightarrow> Some x | None \<Rightarrow> b)"

text \<open>
  \<^verbatim>\<open>np.select(conds, choices, default)\<close>, for one row: the choice of the first
  condition that is true, the default when none is.
\<close>

fun np_select :: "bool list \<Rightarrow> 'a list \<Rightarrow> 'a \<Rightarrow> 'a" where
  "np_select (c # cs) (x # xs) d = (if c then x else np_select cs xs d)"
| "np_select _ _ d = d"

text \<open>
  A comparison of a float column with a number is false on \<^verbatim>\<open>NaN\<close>.
\<close>

definition gt_na :: "'a::linorder option \<Rightarrow> 'a \<Rightarrow> bool" where
  "gt_na a k = (case a of Some x \<Rightarrow> x > k | None \<Rightarrow> False)"

definition ge_na :: "'a::linorder option \<Rightarrow> 'a \<Rightarrow> bool" where
  "ge_na a k = (case a of Some x \<Rightarrow> x \<ge> k | None \<Rightarrow> False)"

definition lt_na :: "'a::linorder option \<Rightarrow> 'a \<Rightarrow> bool" where
  "lt_na a k = (case a of Some x \<Rightarrow> x < k | None \<Rightarrow> False)"

definition le_na :: "'a::linorder option \<Rightarrow> 'a \<Rightarrow> bool" where
  "le_na a k = (case a of Some x \<Rightarrow> x \<le> k | None \<Rightarrow> False)"

section \<open>Timeline urgency: \<^verbatim>\<open>calcular_status_timeline\<close>\<close>

text \<open>
  The status labels of the source are strings; the emoji that prefix some of them and
  the diacritics are left out of the literals here.
\<close>

definition SEM_VALIDADE :: string where "SEM_VALIDADE = ''Sem Validade''"
definition VENCIDO :: string where "VENCIDO = ''Vencido''"
definition CRITICO :: string where "CRITICO = ''Critico''"
definition ATENCAO :: string where "ATENCAO = ''Atencao''"
definition NORMAL :: string where "NORMAL = ''Normal''"

record timeline_row =
  Expiration_Date :: "timestamp option"
  Dias_ate_Vencimento :: "int option"
  Status :: string
  Urgency_Level :: int

text \<open>
  The frame: whether it has the column \<^verbatim>\<open>"Expiration Date"\<close>, and its rows. The
  columns the function does not touch are the \<open>more\<close> part of the row.
\<close>

record 'a timeline_df =
  has_Expiration_Date :: bool
  tl_rows :: "'a timeline_row_scheme list"

definition status_timeline_row :: "timestamp \<Rightarrow> 'a timeline_row_scheme \<Rightarrow> 'a timeline_row_scheme" where
  "status_timeline_row hoje r =
     (let dias = dt_days (Expiration_Date r) (Some hoje);
          conditions = [Expiration_Date r = None, lt_na dias 0, le_na dias 7,
                        le_na dias 30, gt_na dias 30]
      in r\<lparr>Dias_ate_Vencimento := dias,
            Status := np_select conditions [SEM_VALIDADE, VENCIDO, CRITICO, ATENCAO, NORMAL] NORMAL,
            Urgency_Level := np_select conditions [4, 1, 2, 3, 4] 4\<rparr>)"

definition calcular_status_timeline :: "'a timeline_df \<Rightarrow> timestamp \<Rightarrow> 'a timeline_df" where
  "calcular_status_timeline df hoje =
     (if has_Expiration_Date df
      then df\<lparr>tl_rows := map (status_timeline_row hoje) (tl_rows df)\<rparr>
      else df\<lparr>tl_rows := map (\<lambda>r. r\<lparr>Dias_ate_Vencimento := None, Status := SEM_VALIDADE,
                                       Urgency_Level := 4\<rparr>) (tl_rows df)\<rparr>)"

definition timeline_example :: "unit timeline_df" where
  "timeline_example =
     \<lparr>has_Expiration_Date = True,
      tl_rows = [\<lparr>Expiration_Date = Some (Timestamp 2024 6 3), Dias_ate_Vencimento = None,
                  Status = [], Urgency_Level = 0\<rparr>,
                 \<lparr>Expiration_Date = None, Dias_ate_Vencimento = None,
                  Status = [], Urgency_Level = 0\<rparr>]\<rparr>"

section \<open>Time status: \<^verbatim>\<open>calcular_status_tempo\<close>\<close>

definition TEMPO_SEM_VALIDADE :: string where "TEMPO_SEM_VALIDADE = ''Sem Validade''"
definition TEMPO_BOM :: string where "TEMPO_BOM = ''Bom (>90 dias)''"
definition TEMPO_ATENCAO :: string where "TEMPO_ATENCAO = ''Atencao (30-90 dias)''"
definition TEMPO_CRITICO :: string where "TEMPO_CRITICO = ''Critico (<30 dias)''"

text \<open>
  The rows of the frame, column by column: the nine columns of the movements extract,
  the two columns the merges add, and the columns the classifiers compute. A classifier
  assigns the columns it computes and reads the others; a missing value (\<^verbatim>\<open>NaN\<close>,
  \<^verbatim>\<open>NaT\<close>) is \<open>None\<close>. Every function below works on the whole column at once in
  the source (masks, \<^verbatim>\<open>df.loc[mask, col] = ...\<close>, \<^verbatim>\<open>np.select\<close>); row by row that is
  the function on one row given here, mapped over the frame.
\<close>

record mb51_row =
  Data_de_entrada :: "timestamp option"
  Deposito :: "string option"
  Material :: string
  Descricao :: "string option"
  Lote :: string
  Quantidade :: "rat option"
  UM :: "string option"
  Movimento :: "string option"
  Planta :: "string option"

record integrated_row = mb51_row +
  Data_de_vencimento :: "timestamp option"
  Tempo_de_Validade :: "string option"

record row = integrated_row +
  Dias_Validade :: "rat option"
  Venc_Esperado :: "timestamp option"
  Venc_Analise :: "timestamp option"
  Dias_Restantes :: "int option"
  Dias_Validade_Total :: "int option"
  Status_Tempo :: string
  Dias_Esperados :: "rat option"
  Validade_Real :: "int option"
  Pct_Restante :: "rat option"
  Status :: string
  Desvio_Dias :: "int option"
  Tipo_Problema :: string
  Tem_Problema :: bool

definition is_2070 :: "timestamp option \<Rightarrow> bool" where
  \<comment> \<open>\<^verbatim>\<open>col.notna() & (col.dt.year == 2070)\<close>\<close>
  "is_2070 d = (case d of Some t \<Rightarrow> dt_year t = 2070 | None \<Rightarrow> False)"

text \<open>
  \<^verbatim>\<open>calcular_status_tempo\<close> works on a copy of the frame, which has been through
  \<^verbatim>\<open>calcular_vencimento_esperado\<close>: the column \<^verbatim>\<open>Venc_Esperado\<close> is there, and the
  date columns are parsed already, so \<^verbatim>\<open>safe_to_datetime\<close> leaves them as they are.
  Each \<open>let\<close> is one assignment of the source.
\<close>

definition status_tempo_row :: "timestamp \<Rightarrow> row \<Rightarrow> row" where
  "status_tempo_row hoje r0 =
     (let mask_2070_original = is_2070 (Data_de_vencimento r0);
          r1 = (if mask_2070_original then r0\<lparr>Data_de_vencimento := None\<rparr> else r0);
          r2 = r1\<lparr>Venc_Analise := fillna (Data_de_vencimento r1) (Venc_Esperado r1)\<rparr>;
          mask_2070_esp = is_2070 (Venc_Analise r2);
          r3 = (if mask_2070_esp then r2\<lparr>Venc_Analise := None\<rparr> else r2);
          r4 = (if mask_2070_original then r3\<lparr>Venc_Analise := None\<rparr> else r3);
          r5 = r4\<lparr>Dias_Restantes := dt_days (Venc_Analise r4) (Some hoje)\<rparr>;
          r6 = r5\<lparr>Dias_Validade_Total := dt_days (Venc_Analise r5) (Data_de_entrada r5)\<rparr>;
          conds = [Venc_Analise r6 = None \<or> Data_de_entrada r6 = None,
                   gt_na (Dias_Validade_Total r6) 90,
                   ge_na (Dias_Validade_Total r6) 30,
                   ge_na (Dias_Validade_Total r6) 0];
          choices = [TEMPO_SEM_VALIDADE, TEMPO_BOM, TEMPO_ATENCAO, TEMPO_CRITICO]
      in r6\<lparr>Status_Tempo := np_select conds choices TEMPO_SEM_VALIDADE\<rparr>)"

definition calcular_status_tempo :: "row list \<Rightarrow> timestamp \<Rightarrow> row list" where
  "calcular_status_tempo df hoje = map (status_tempo_row hoje) df"

section \<open>Percent conformance: \<^verbatim>\<open>calcular_status_percentual\<close>\<close>

text \<open>
  Python floats are modelled by exact rationals: the day counts are integers, and the
  rounding of a float division is not part of the model.
\<close>

definition PCT_SEM_VALIDADE :: string where "PCT_SEM_VALIDADE = ''Sem Validade''"
definition PCT_DENTRO :: string where "PCT_DENTRO = ''Dentro do esperado''"
definition PCT_ATENCAO :: string where "PCT_ATENCAO = ''Atencao''"
definition PCT_FORA :: string where "PCT_FORA = ''Fora do esperado''"

definition clip :: "rat \<Rightarrow> rat \<Rightarrow> rat \<Rightarrow> rat" where
  \<comment> \<open>\<^verbatim>\<open>x.clip(lower, upper)\<close>\<close>
  "clip lower upper x = min (max x lower) upper"

text \<open>
  Each \<open>let\<close> is one assignment of the source, in its order; the name bound is the
  column assigned, with a digit when the column is assigned again.
\<close>

definition status_percentual_row :: "timestamp \<Rightarrow> rat \<Rightarrow> rat \<Rightarrow> row \<Rightarrow> row" where
  "status_percentual_row hoje limiar_bom limiar_atencao r =
     (let dias_esperados0 = Dias_Validade r;
          falt = (dias_esperados0 = None \<or> le_na dias_esperados0 0);
          dias_esperados =
            (if falt then map_option of_int (dt_days (Venc_Analise r) (Data_de_entrada r))
             else dias_esperados0);
          pct0 = None;
          validade_real0 = None;
          mask_real = (Data_de_entrada r \<noteq> None \<and> Data_de_vencimento r \<noteq> None);
          validade_real =
            (if mask_real then dt_days (Data_de_vencimento r) (Data_de_entrada r)
             else validade_real0);
          mask_calc = (validade_real \<noteq> None \<and> Dias_Validade r \<noteq> None
                       \<and> gt_na (Dias_Validade r) 0);
          pct1 = (if mask_calc
                  then (case (validade_real, Dias_Validade r) of
                          (Some v, Some d) \<Rightarrow> Some (of_int v / d * 100)
                        | _ \<Rightarrow> None)
                  else pct0);
          pct = map_option (clip 0 200) pct1;
          status0 = PCT_SEM_VALIDADE;
          status1 = (if pct \<noteq> None \<and> ge_na pct limiar_bom then PCT_DENTRO else status0);
          status2 = (if pct \<noteq> None \<and> ge_na pct limiar_atencao \<and> lt_na pct limiar_bom
                     then PCT_ATENCAO else status1);
          status3 = (if pct \<noteq> None \<and> lt_na pct limiar_atencao then PCT_FORA else status2)
      in r\<lparr>Dias_Esperados := dias_esperados, Validade_Real := validade_real,
            Pct_Restante := pct, Status := status3\<rparr>)"

text \<open>
  The frame \<^verbatim>\<open>calcular_status_percentual\<close> receives has been through
  \<^verbatim>\<open>calcular_status_tempo\<close>, so the column \<^verbatim>\<open>Dias_Restantes\<close> is there and the branch
  that would compute it from \<^verbatim>\<open>hoje\<close> is not taken.
\<close>

definition calcular_status_percentual :: "row list \<Rightarrow> timestamp \<Rightarrow> rat \<Rightarrow> rat \<Rightarrow> row list" where
  "calcular_status_percentual df hoje limiar_bom limiar_atencao =
     map (status_percentual_row hoje limiar_bom limiar_atencao) df"

section \<open>Divergences: \<^verbatim>\<open>identificar_divergencias\<close>\<close>

definition SEM_TEMPO_CADASTRADO :: string where
  "SEM_TEMPO_CADASTRADO = ''Sem Tempo de Validade Cadastrado''"
definition SEM_DATA_REAL :: string where
  "SEM_DATA_REAL = ''Sem Data Real no SQ00''"
definition SEM_TEMPO_PARA_CALCULAR :: string where
  "SEM_TEMPO_PARA_CALCULAR = ''Sem Tempo de Validade para Calcular''"
definition MATERIAL_VENCIDO :: string where
  "MATERIAL_VENCIDO = ''Material Vencido''"
definition DESVIO_CRITICO :: string where
  "DESVIO_CRITICO = ''Desvio Percentual Critico''"

definition divergencias_choices :: "string list" where
  "divergencias_choices =
     [SEM_TEMPO_CADASTRADO, SEM_DATA_REAL, SEM_TEMPO_PARA_CALCULAR, MATERIAL_VENCIDO,
      DESVIO_CRITICO]"

text \<open>
  The list \<^verbatim>\<open>conds\<close> of the source, for one row. \<open>has_tempo\<close> says whether the frame
  has the column \<^verbatim>\<open>"Tempo de Validade"\<close>; without it the first condition is false.
\<close>

definition divergencias_conds :: "bool \<Rightarrow> row \<Rightarrow> bool list" where
  "divergencias_conds has_tempo r =
     [(if has_tempo
       then Tempo_de_Validade r = None
            \<and> (Data_de_vencimento r \<noteq> None \<or> Venc_Esperado r \<noteq> None)
       else False),
      Data_de_vencimento r = None \<and> Venc_Esperado r \<noteq> None,
      Data_de_vencimento r \<noteq> None \<and> Venc_Esperado r = None,
      lt_na (Dias_Restantes r) 0,
      Status r = PCT_FORA]"

definition divergencias_row :: "bool \<Rightarrow> row \<Rightarrow> row" where
  "divergencias_row has_tempo r0 =
     (let r1 = r0\<lparr>Desvio_Dias := None\<rparr>;
          mask = (Data_de_vencimento r1 \<noteq> None \<and> Venc_Esperado r1 \<noteq> None);
          r2 = (if mask
                then r1\<lparr>Desvio_Dias := dt_days (Data_de_vencimento r1) (Venc_Esperado r1)\<rparr>
                else r1);
          conds = divergencias_conds has_tempo r2;
          r3 = r2\<lparr>Tipo_Problema := np_select conds divergencias_choices []\<rparr>
      in r3\<lparr>Tem_Problema := (Tipo_Problema r3 \<noteq> [])\<rparr>)"

definition identificar_divergencias :: "bool \<Rightarrow> row list \<Rightarrow> row list" where
  "identificar_divergencias has_tempo df = map (divergencias_row has_tempo) df"

text \<open>A row with every cell missing, to build examples from.\<close>

definition blank_row :: row where
  "blank_row =
     \<lparr>Data_de_entrada = None, Deposito = None, Material = ''nan'', Descricao = None,
      Lote = ''nan'', Quantidade = None, UM = None, Movimento = None, Planta = None,
      Data_de_vencimento = None, Tempo_de_Validade = None,
      Dias_Validade = None, Venc_Esperado = None, Venc_Analise = None,
      Dias_Restantes = None, Dias_Validade_Total = None, Status_Tempo = [],
      Dias_Esperados = None, Validade_Real = None, Pct_Restante = None, Status = [],
      Desvio_Dias = None, Tipo_Problema = [], Tem_Problema = False\<rparr>"

text \<open>
  The sentinel rule as the specification words it: a date whose year is 2070 is nulled
  out.
\<close>

definition spec_scrub_2070 :: "timestamp option \<Rightarrow> timestamp option" where
  "spec_scrub_2070 d = (if is_2070 d then None else d)"



definition row_sentinel :: row where
  \<comment> \<open>real expiration 2070-12-31, expected expiration 2025-01-01\<close>
  "row_sentinel =
     blank_row\<lparr>Data_de_entrada := Some (Timestamp 2024 1 1),
               Data_de_vencimento := Some (Timestamp 2070 12 31),
               Venc_Esperado := Some (Timestamp 2025 1 1)\<rparr>"

definition row_conformance :: row where
  \<comment> \<open>entered 2024-01-01, real expiration 2024-02-01, 100 days declared\<close>
  "row_conformance =
     blank_row\<lparr>Data_de_entrada := Some (Timestamp 2024 1 1),
               Data_de_vencimento := Some (Timestamp 2024 2 1),
               Tempo_de_Validade := Some ''100 dias'',
               Dias_Validade := Some 100,
               Venc_Esperado := Some (Timestamp 2024 4 10)\<rparr>"

definition row_no_text_no_real :: row where
  \<comment> \<open>no declared shelf life, no real expiration, an expected expiration\<close>
  "row_no_text_no_real = blank_row\<lparr>Venc_Esperado := Some (Timestamp 2025 1 1)\<rparr>"

definition row_unparsed_expired :: row where
  \<comment> \<open>a declared shelf life that does not parse, a real expiration 152 days ago\<close>
  "row_unparsed_expired =
     blank_row\<lparr>Data_de_vencimento := Some (Timestamp 2024 1 1),
               Tempo_de_Validade := Some ''abc'',
               Dias_Restantes := Some (- 152)\<rparr>"

definition row_expired_critical :: row where
  \<comment> \<open>both dates, expired 121 days ago, percent status "Fora do esperado"\<close>
  "row_expired_critical =
     blank_row\<lparr>Data_de_vencimento := Some (Timestamp 2024 2 1),
               Tempo_de_Validade := Some ''100 dias'',
               Venc_Esperado := Some (Timestamp 2024 4 10),
               Dias_Restantes := Some (- 121),
               Status := PCT_FORA\<rparr>"

definition row_no_shelf_life :: row where
  \<comment> \<open>no declared shelf life, real expiration 2024-01-01, classified on 2024-06-01\<close>
  "row_no_shelf_life =
     status_percentual_row (Timestamp 2024 6 1) 90 50
       (status_tempo_row (Timestamp 2024 6 1)
          (blank_row\<lparr>Data_de_entrada := Some (Timestamp 2023 1 1),
                     Data_de_vencimento := Some (Timestamp 2024 1 1)\<rparr>))"

section \<open>Duration parser: \<^verbatim>\<open>parse_tempo_validade_to_days\<close>\<close>

text \<open>
  A cell of the column \<^verbatim>\<open>"Tempo de Validade"\<close> is a string or \<^verbatim>\<open>NaN\<close> (\<open>None\<close>). The
  characters of a string are the code points below 256; the classes of characters that
  \<^verbatim>\<open>str.strip\<close>, \<^verbatim>\<open>str.lower\<close> and the patterns \<^verbatim>\<open>\d\<close>, \<^verbatim>\<open>\b\<close> of \<^verbatim>\<open>re\<close> use are
  written out for these code points. The float the function returns is modelled by the
  exact rational.
\<close>

definition py_isspace :: "char \<Rightarrow> bool" where
  "py_isspace c = ((of_char c :: nat) \<in> {9, 10, 11, 12, 13, 28, 29, 30, 31, 32, 133, 160})"

definition py_lower_char :: "char \<Rightarrow> char" where
  "py_lower_char c =
     (let n = (of_char c :: nat)
      in if (65 \<le> n \<and> n \<le> 90) \<or> (192 \<le> n \<and> n \<le> 222 \<and> n \<noteq> 215)
         then char_of (n + 32) else c)"

definition lower :: "string \<Rightarrow> string" where
  "lower s = map py_lower_char s"

definition strip :: "string \<Rightarrow> string" where
  "strip s = rev (dropWhile py_isspace (rev (dropWhile py_isspace s)))"

definition replace_char :: "char \<Rightarrow> char \<Rightarrow> string \<Rightarrow> string" where
  \<comment> \<open>\<^verbatim>\<open>s.replace(a, b)\<close> for one-character strings\<close>
  "replace_char a b s = map (\<lambda>c. if c = a then b else c) s"

definition is_digit :: "char \<Rightarrow> bool" where
  \<comment> \<open>\<^verbatim>\<open>\d\<close>\<close>
  "is_digit c = (48 \<le> (of_char c :: nat) \<and> (of_char c :: nat) \<le> 57)"

definition is_word_char :: "char \<Rightarrow> bool" where
  \<comment> \<open>\<^verbatim>\<open>\w\<close>: alphanumeric or underscore\<close>
  "is_word_char c =
     (let n = (of_char c :: nat)
      in (48 \<le> n \<and> n \<le> 57) \<or> (65 \<le> n \<and> n \<le> 90) \<or> n = 95 \<or> (97 \<le> n \<and> n \<le> 122)
         \<or> n \<in> {170, 178, 179, 181, 185, 186, 188, 189, 190}
         \<or> (192 \<le> n \<and> n \<le> 214) \<or> (216 \<le> n \<and> n \<le> 246) \<or> 248 \<le> n)"

text \<open>
  \<^verbatim>\<open>re.search(r"[-+]?\d+(\.\d+)?", s)\<close>: \<open>match_number\<close> is the match of the pattern at
  the start of the string (the optional sign, the longest run of digits, then the
  fraction when a dot and a digit follow), \<open>re_search_number\<close> the leftmost position
  where it matches. The result is the matched text, \<^verbatim>\<open>m.group(0)\<close>.
\<close>

definition match_number :: "string \<Rightarrow> string option" where
  "match_number s =
     (let (sign, s1) =
            (case s of
               c # cs \<Rightarrow> if c = CHR ''-'' \<or> c = CHR ''+'' then ([c], cs) else ([], s)
             | [] \<Rightarrow> ([], s));
          ds = takeWhile is_digit s1;
          s2 = dropWhile is_digit s1
      in if ds = [] then None
         else (case s2 of
                 c # cs \<Rightarrow>
                   if c = CHR ''.'' \<and> takeWhile is_digit cs \<noteq> []
                   then Some (sign @ ds @ [c] @ takeWhile is_digit cs)
                   else Some (sign @ ds)
               | [] \<Rightarrow> Some (sign @ ds)))"

fun re_search_number :: "string \<Rightarrow> string option" where
  "re_search_number [] = None"
| "re_search_number (c # cs) =
     (case match_number (c # cs) of Some m \<Rightarrow> Some m | None \<Rightarrow> re_search_number cs)"

definition digits_value :: "string \<Rightarrow> nat" where
  "digits_value ds = foldl (\<lambda>a c. 10 * a + (of_char c - 48)) 0 ds"

definition float_of :: "string \<Rightarrow> rat" where
  \<comment> \<open>\<^verbatim>\<open>float(m.group(0))\<close>, on a text the pattern matched\<close>
  "float_of m =
     (let (neg, body) =
            (case m of
               c # cs \<Rightarrow> if c = CHR ''-'' then (True, cs)
                         else if c = CHR ''+'' then (False, cs) else (False, m)
             | [] \<Rightarrow> (False, m));
          ip = takeWhile is_digit body;
          fp = drop 1 (dropWhile is_digit body);
          v = of_nat (digits_value ip) + of_nat (digits_value fp) / 10 ^ length fp
      in if neg then - v else v)"

fun is_in :: "string \<Rightarrow> string \<Rightarrow> bool" where
  \<comment> \<open>\<^verbatim>\<open>sub in s\<close>\<close>
  "is_in sub [] = (sub = [])"
| "is_in sub (c # cs) = (prefix sub (c # cs) \<or> is_in sub cs)"

text \<open>
  \<^verbatim>\<open>re.search(r"\bW\b", s)\<close> for a literal word \<open>W\<close>: \<^verbatim>\<open>\b\<close> holds between two
  positions of which exactly one is a word character; outside the string counts as
  not a word character.
\<close>

definition boundary :: "char option \<Rightarrow> char option \<Rightarrow> bool" where
  "boundary a b =
     ((case a of Some c \<Rightarrow> is_word_char c | None \<Rightarrow> False)
      \<noteq> (case b of Some c \<Rightarrow> is_word_char c | None \<Rightarrow> False))"

definition word_at :: "string \<Rightarrow> char option \<Rightarrow> string \<Rightarrow> bool" where
  "word_at w prev s =
     (w \<noteq> [] \<and> prefix w s \<and> boundary prev (Some (hd w))
      \<and> boundary (Some (last w))
           (case drop (length w) s of [] \<Rightarrow> None | c # _ \<Rightarrow> Some c))"

fun search_word_from :: "string \<Rightarrow> char option \<Rightarrow> string \<Rightarrow> bool" where
  "search_word_from w prev [] = False"
| "search_word_from w prev (c # cs) =
     (word_at w prev (c # cs) \<or> search_word_from w (Some c) cs)"

definition re_search_word :: "string \<Rightarrow> string \<Rightarrow> bool" where
  "re_search_word w s = search_word_from w None s"

definition parse_tempo_validade_to_days :: "string option \<Rightarrow> rat option" where
  "parse_tempo_validade_to_days val =
     (case val of
        None \<Rightarrow> None
      | Some v \<Rightarrow>
          (let s0 = lower (strip v)
           in if s0 = [] then None
              else (let s = replace_char CHR '','' CHR ''.'' s0
                    in case re_search_number s of
                         None \<Rightarrow> None
                       | Some m \<Rightarrow>
                           (let num = float_of m
                            in if is_in ''mes'' s \<or> re_search_word ''mo'' s
                               then Some (num * 30.4375)
                               else if is_in ''ano'' s \<or> is_in ''anos'' s \<or> is_in ''year'' s
                               then Some (num * 365)
                               else if is_in ''dia'' s \<or> is_in ''dias'' s
                                       \<or> re_search_word ''d'' s
                               then Some num
                               else None))))"

text \<open>
  The value of a decimal numeral as the specification reads it: sign, integer digits
  and fraction digits.
\<close>

definition spec_number :: "string \<Rightarrow> string \<Rightarrow> string \<Rightarrow> rat" where
  "spec_number sg ds fs =
     (if sg = ''-'' then - 1 else 1)
     * (of_nat (digits_value ds) + of_nat (digits_value fs) / 10 ^ length fs)"

definition spec_numeral :: "string \<Rightarrow> string \<Rightarrow> string \<Rightarrow> string" where
  "spec_numeral sg ds fs = sg @ ds @ (if fs = [] then [] else CHR ''.'' # fs)"

text \<open>The characters of a numeral and the blank that follows it.\<close>

definition is_num_char :: "char \<Rightarrow> bool" where
  "is_num_char c = (is_digit c \<or> c \<in> set ''+-. '')"

definition month_units :: "string list" where
  "month_units = [''mes'', ''meses'', ''mo'']"

definition year_units :: "string list" where
  "year_units = [''ano'', ''anos'', ''year'']"

definition day_units :: "string list" where
  "day_units = [''dia'', ''dias'', ''d'']"

text \<open>The three tests of the source on the normalised string, as it writes them.\<close>

definition month_indicator :: "string \<Rightarrow> bool" where
  "month_indicator s = (is_in ''mes'' s \<or> re_search_word ''mo'' s)"

definition year_indicator :: "string \<Rightarrow> bool" where
  "year_indicator s = (is_in ''ano'' s \<or> is_in ''anos'' s \<or> is_in ''year'' s)"

definition day_indicator :: "string \<Rightarrow> bool" where
  "day_indicator s = (is_in ''dia'' s \<or> is_in ''dias'' s \<or> re_search_word ''d'' s)"

definition normalise :: "string \<Rightarrow> string" where
  "normalise v = replace_char CHR '','' CHR ''.'' (lower (strip v))"

definition wf_numeral :: "string \<Rightarrow> string \<Rightarrow> string \<Rightarrow> bool" where
  "wf_numeral sg ds fs =
     (sg \<in> {[], ''+'', ''-''} \<and> ds \<noteq> [] \<and> (\<forall>c\<in>set ds. is_digit c) \<and> (\<forall>c\<in>set fs. is_digit c))"

text \<open>
  A duration string as it may be written: blanks around it, the numeral with a dot or a
  comma before the fraction, one or more spaces, and the unit word in lower or upper
  case. These definitions do not use the functions of the parser.
\<close>

definition spec_numeral_written :: "string \<Rightarrow> string \<Rightarrow> char \<Rightarrow> string \<Rightarrow> string" where
  "spec_numeral_written sg ds sep fs = sg @ ds @ (if fs = [] then [] else sep # fs)"

definition ascii_upper :: "char \<Rightarrow> char" where
  "ascii_upper c =
     (case map_of (zip ''abcdefghijklmnopqrstuvwxyz'' ''ABCDEFGHIJKLMNOPQRSTUVWXYZ'') c of
        Some C \<Rightarrow> C
      | None \<Rightarrow> c)"

definition case_variant :: "string \<Rightarrow> string \<Rightarrow> bool" where
  \<comment> \<open>\<open>U\<close> is the lower-case word \<open>u\<close> with some of its letters in upper case\<close>
  "case_variant U u = list_all2 (\<lambda>a b. a = b \<or> a = ascii_upper b) U u"

definition spec_blanks :: "char set" where
  \<comment> \<open>space, tab, line feed, carriage return\<close>
  "spec_blanks = {CHR '' '', CHR 0x09, CHR 0x0A, CHR 0x0D}"

text \<open>
  The word \<open>w\<close> occurs in \<open>s\<close> as a whole word: with no word character just before it
  and none just after it.
\<close>

definition spec_word_in :: "string \<Rightarrow> string \<Rightarrow> bool" where
  "spec_word_in w s =
     (\<exists>p q. s = p @ w @ q \<and> (p = [] \<or> \<not> is_word_char (last p))
            \<and> (q = [] \<or> \<not> is_word_char (hd q)))"

section \<open>Integration: \<^verbatim>\<open>carregar_dados\<close>\<close>

text \<open>
  The three extracts as they are once read and their dates parsed: the movements
  (\<open>mb51_row\<close>), the expirations as triples of material, batch and real expiration
  date, the shelf lives as pairs of material and declared shelf-life text. Reading the
  files and parsing the dates are outside the model; so are the conversions after the
  merges, which leave parsed columns as they are.
\<close>

type_synonym sq00_row = "string \<times> string \<times> timestamp option"
type_synonym forn_row = "string \<times> string option"

definition clean_key :: "string \<Rightarrow> string" where
  \<comment> \<open>\<^verbatim>\<open>.str.strip().str.replace(r"\.0$", "", regex=True)\<close>\<close>
  "clean_key s =
     (let t = strip s
      in if 2 \<le> length t \<and> drop (length t - 2) t = ''.0'' then take (length t - 2) t else t)"

definition sq00_key :: "sq00_row \<Rightarrow> string \<times> string" where
  "sq00_key r = (fst r, fst (snd r))"

definition sq00_date :: "sq00_row \<Rightarrow> timestamp option" where
  "sq00_date r = snd (snd r)"

text \<open>
  \<^verbatim>\<open>sort_values("Data de vencimento")\<close>: the rows with a date in ascending order of
  the date, then the rows without a date (\<^verbatim>\<open>na_position="last"\<close> is the default).
  The order the sort leaves between rows of equal dates is not fixed by pandas;
  here they keep their order.
\<close>

definition sort_values :: "sq00_row list \<Rightarrow> sq00_row list" where
  "sort_values df =
     sort_key (\<lambda>r. case sq00_date r of Some t \<Rightarrow> t | None \<Rightarrow> 0)
       (filter (\<lambda>r. sq00_date r \<noteq> None) df)
     @ filter (\<lambda>r. sq00_date r = None) df"

fun drop_duplicates_last :: "('a \<Rightarrow> 'k) \<Rightarrow> 'a list \<Rightarrow> 'a list" where
  \<comment> \<open>\<^verbatim>\<open>drop_duplicates(subset=..., keep="last")\<close>\<close>
  "drop_duplicates_last key [] = []"
| "drop_duplicates_last key (x # xs) =
     (if key x \<in> set (map key xs) then drop_duplicates_last key xs
      else x # drop_duplicates_last key xs)"

fun drop_duplicates_first :: "('a \<Rightarrow> 'k) \<Rightarrow> 'a list \<Rightarrow> 'a list" where
  \<comment> \<open>\<^verbatim>\<open>drop_duplicates(subset)\<close>, which keeps the first row of each key\<close>
  "drop_duplicates_first key [] = []"
| "drop_duplicates_first key (x # xs) =
     x # drop_duplicates_first key (filter (\<lambda>y. key y \<noteq> key x) xs)"

definition sq00_sem_duplicatas :: "sq00_row list \<Rightarrow> sq00_row list" where
  \<comment> \<open>the cleaning and de-duplication of the expirations extract in \<^verbatim>\<open>carregar_dados\<close>\<close>
  "sq00_sem_duplicatas sq00 =
     drop_duplicates_last sq00_key
       (sort_values (map (\<lambda>(m, l, d). (clean_key m, clean_key l, d)) sq00))"

text \<open>
  \<^verbatim>\<open>left.merge(right, on=keys, how="left")\<close>: the rows of \<open>left\<close> in their order, each
  joined with every row of \<open>right\<close> that has its key, or once with nothing when no
  row of \<open>right\<close> has it.
\<close>

definition merge_left ::
  "('a \<Rightarrow> 'k) \<Rightarrow> ('b \<Rightarrow> 'k) \<Rightarrow> ('a \<Rightarrow> 'b option \<Rightarrow> 'c) \<Rightarrow> 'a list \<Rightarrow> 'b list \<Rightarrow> 'c list" where
  "merge_left kl kr join left right =
     concat (map (\<lambda>l. case filter (\<lambda>r. kr r = kl l) right of
                         [] \<Rightarrow> [join l None]
                       | ms \<Rightarrow> map (\<lambda>r. join l (Some r)) ms) left)"

definition carregar_dados ::
  "mb51_row list \<Rightarrow> sq00_row list \<Rightarrow> forn_row list \<Rightarrow> integrated_row list" where
  "carregar_dados mb51_lido sq00_lido forn_lido =
     (let mb51 = map (\<lambda>r. r\<lparr>Material := clean_key (Material r),
                             Lote := clean_key (Lote r)\<rparr>) mb51_lido;
          sq00 = sq00_sem_duplicatas sq00_lido;
          forn_sel = map (\<lambda>(m, t). (clean_key m, t)) forn_lido;
          df1 = merge_left (\<lambda>r. (Material r, Lote r)) sq00_key
                  (\<lambda>r s. (r, case s of None \<Rightarrow> None | Some x \<Rightarrow> sq00_date x)) mb51 sq00
      in merge_left (\<lambda>(r, d). Material r) fst
           (\<lambda>(r, d) s. mb51_row.extend r
                          (integrated_row.fields d
                             (case s of None \<Rightarrow> None | Some x \<Rightarrow> snd x)))
           df1 (drop_duplicates_first fst forn_sel))"

text \<open>Example extracts.\<close>

definition sq00_two_dates :: "sq00_row list" where
  "sq00_two_dates =
     [(''100'', ''A'', Some (Timestamp 2024 3 1)), (''100'', ''A'', Some (Timestamp 2024 1 1))]"

definition sq00_missing_date :: "sq00_row list" where
  "sq00_missing_date =
     [(''100'', ''A'', Some (Timestamp 2024 1 1)), (''100'', ''A'', None)]"

definition mb51_example :: "mb51_row list" where
  "mb51_example =
     [\<lparr>Data_de_entrada = Some (Timestamp 2024 1 1), Deposito = Some ''D1'',
       Material = ''100.0'', Descricao = None, Lote = '' A'', Quantidade = Some 5,
       UM = None, Movimento = None, Planta = None\<rparr>,
      \<lparr>Data_de_entrada = None, Deposito = Some ''D2'',
       Material = ''200'', Descricao = None, Lote = ''B'', Quantidade = None,
       UM = None, Movimento = None, Planta = None\<rparr>]"

section \<open>Filter engine: \<^verbatim>\<open>apply_filters\<close>\<close>

text \<open>
  A frame is its list of column names and its rows; a row maps a column name to a cell.
  The columns the function reads hold text, so a cell is a string, or \<open>None\<close> for a
  missing value. \<^verbatim>\<open>df[c]\<close> raises \<^verbatim>\<open>KeyError\<close> when the frame has no column \<open>c\<close>. The
  accented column names are written without accents (\<open>Deposito\<close>, \<open>Descricao\<close>).
\<close>

datatype py_error = KeyError string | ReError

type_synonym cell = "string option"

record dataframe =
  columns :: "string list"
  rows :: "(string \<times> cell) list list"

definition cell_of :: "(string \<times> cell) list \<Rightarrow> string \<Rightarrow> cell" where
  "cell_of r c = (case map_of r c of Some v \<Rightarrow> v | None \<Rightarrow> None)"

definition col_values :: "dataframe \<Rightarrow> string \<Rightarrow> py_error + cell list" where
  \<comment> \<open>\<^verbatim>\<open>df[c].values\<close>\<close>
  "col_values df c =
     (if c \<in> set (columns df) then Inr (map (\<lambda>r. cell_of r c) (rows df))
      else Inl (KeyError c))"

definition astype_str :: "cell \<Rightarrow> string" where
  "astype_str v = (case v of Some s \<Rightarrow> s | None \<Rightarrow> ''nan'')"

text \<open>
  The part of \<^verbatim>\<open>st.session_state.filter_state\<close> that the function reads; the other
  keys are the \<open>more\<close> part of the record. The state is a global of the source and a
  parameter here. \<open>initial_filter_state\<close> is the state \<^verbatim>\<open>initialize_filter_state\<close>
  sets up.
\<close>

record filter_state =
  search_query :: string
  depot_filter :: "string list"
  status_filter_from_chart :: "string option"
  status_tempo_filter_from_chart :: "string option"
  problem_type_filter_from_chart :: "string option"

definition initial_filter_state :: filter_state where
  "initial_filter_state =
     \<lparr>search_query = [], depot_filter = [], status_filter_from_chart = None,
      status_tempo_filter_from_chart = None, problem_type_filter_from_chart = None\<rparr>"

definition truthy :: "string option \<Rightarrow> bool" where
  \<comment> \<open>the truth value of a value that is \<^verbatim>\<open>None\<close> or a string\<close>
  "truthy v = (case v of None \<Rightarrow> False | Some s \<Rightarrow> s \<noteq> [])"

definition has_filters :: "'a filter_state_scheme \<Rightarrow> string \<Rightarrow> bool" where
  "has_filters fs filter_source =
     ((filter_source \<in> set [''all'', ''global'']
         \<and> (search_query fs \<noteq> [] \<or> depot_filter fs \<noteq> []))
      \<or> (filter_source \<in> set [''all'', ''chart'']
         \<and> (truthy (status_filter_from_chart fs)
              \<or> truthy (status_tempo_filter_from_chart fs)
              \<or> truthy (problem_type_filter_from_chart fs))))"

fun str_join :: "string \<Rightarrow> string list \<Rightarrow> string" where
  \<comment> \<open>\<^verbatim>\<open>sep.join(xs)\<close>\<close>
  "str_join sep [] = []"
| "str_join sep [x] = x"
| "str_join sep (x # y # ys) = x @ sep @ str_join sep (y # ys)"

definition bind_err :: "'e + 'a \<Rightarrow> ('a \<Rightarrow> 'e + 'b) \<Rightarrow> 'e + 'b" where
  "bind_err m f = (case m of Inl e \<Rightarrow> Inl e | Inr x \<Rightarrow> f x)"

text \<open>
  The state of the function's body: the mask and the list \<^verbatim>\<open>applied_filters\<close>. One
  step is \<^verbatim>\<open>mask &= test(df[column].values)\<close> followed by
  \<^verbatim>\<open>applied_filters.append(description)\<close>.
\<close>

type_synonym fstate = "bool list \<times> string list"

definition mask_step ::
  "dataframe \<Rightarrow> string \<Rightarrow> (cell \<Rightarrow> bool) \<Rightarrow> string \<Rightarrow> fstate \<Rightarrow> py_error + fstate" where
  "mask_step df column test description s =
     bind_err (col_values df column)
       (\<lambda>vals. Inr (map2 (\<and>) (fst s) (map test vals), snd s @ [description]))"

definition chart_filter ::
  "dataframe \<Rightarrow> string option \<Rightarrow> string \<Rightarrow> string \<Rightarrow> fstate \<Rightarrow> py_error + fstate" where
  \<comment> \<open>\<^verbatim>\<open>if filter_state[key]: mask &= (df[column].values == filter_state[key]); ...\<close>\<close>
  "chart_filter df v column label s =
     (case v of
        None \<Rightarrow> Inr s
      | Some x \<Rightarrow> if x = [] then Inr s
                  else mask_step df column (\<lambda>c. c = Some x) (label @ x) s)"

text \<open>
  \<^verbatim>\<open>str.contains(query, case=False, na=False)\<close> compiles the query as a regular
  expression, which raises \<^verbatim>\<open>re.error\<close> on a malformed one, and searches each string.
  The regular expressions of Python are a parameter: \<open>re_compile q\<close> is \<open>None\<close> when
  \<open>q\<close> does not compile, and otherwise the test whether \<open>q\<close> is found in a string,
  ignoring case.
\<close>

definition search_step ::
  "(string \<Rightarrow> (string \<Rightarrow> bool) option) \<Rightarrow> dataframe \<Rightarrow> string \<Rightarrow> fstate \<Rightarrow> py_error + fstate" where
  "search_step re_compile df query s =
     bind_err (col_values df ''Material'')
       (\<lambda>material.
          case re_compile query of
            None \<Rightarrow> Inl ReError
          | Some found \<Rightarrow>
              bind_err (col_values df ''Descricao'')
                (\<lambda>descricao.
                   (let search_mask =
                          map2 (\<or>) (map (\<lambda>c. found (astype_str c)) material)
                                    (map (\<lambda>c. found (astype_str c)) descricao)
                    in Inr (map2 (\<and>) (fst s) search_mask,
                            snd s @ [''Search: '' @ [CHR 0x27] @ query @ [CHR 0x27]]))))"

text \<open>
  The three blocks of the body, each under its test of \<^verbatim>\<open>filter_source\<close>, in the order
  of the source: the chart filters, the depot filter, the search.
\<close>

definition chart_block ::
  "'a filter_state_scheme \<Rightarrow> dataframe \<Rightarrow> string \<Rightarrow> fstate \<Rightarrow> py_error + fstate" where
  "chart_block filter_state df filter_source s =
     (if filter_source \<in> set [''all'', ''chart'']
      then bind_err
             (chart_filter df (status_filter_from_chart filter_state)
                ''Status'' ''Status: '' s)
             (\<lambda>s1. bind_err
                (chart_filter df (status_tempo_filter_from_chart filter_state)
                   ''Status_Tempo'' ''Temporal Status: '' s1)
                (\<lambda>s2. if ''Tipo_Problema'' \<in> set (columns df)
                       then chart_filter df (problem_type_filter_from_chart filter_state)
                              ''Tipo_Problema'' ''Problem Type: '' s2
                       else Inr s2))
      else Inr s)"

definition depot_block ::
  "'a filter_state_scheme \<Rightarrow> dataframe \<Rightarrow> string \<Rightarrow> fstate \<Rightarrow> py_error + fstate" where
  "depot_block filter_state df filter_source s =
     (if filter_source \<in> set [''all'', ''global''] \<and> depot_filter filter_state \<noteq> []
      then mask_step df ''Deposito''
             (\<lambda>c. c \<in> set (map Some (depot_filter filter_state)))
             (''Depot: '' @ str_join '', '' (depot_filter filter_state)) s
      else Inr s)"

definition search_block ::
  "(string \<Rightarrow> (string \<Rightarrow> bool) option) \<Rightarrow> 'a filter_state_scheme \<Rightarrow> dataframe \<Rightarrow> string
   \<Rightarrow> fstate \<Rightarrow> py_error + fstate" where
  "search_block re_compile filter_state df filter_source s =
     (if filter_source \<in> set [''all'', ''global''] \<and> search_query filter_state \<noteq> []
      then search_step re_compile df (search_query filter_state) s
      else Inr s)"

definition apply_filters ::
  "(string \<Rightarrow> (string \<Rightarrow> bool) option) \<Rightarrow> 'a filter_state_scheme \<Rightarrow> dataframe \<Rightarrow> string
   \<Rightarrow> py_error + (dataframe \<times> string list)" where
  "apply_filters re_compile filter_state df filter_source =
     (if \<not> has_filters filter_state filter_source then Inr (df, [])
      else
        bind_err (chart_block filter_state df filter_source
                    (replicate (length (rows df)) True, []))
          (\<lambda>s1. bind_err (depot_block filter_state df filter_source s1)
             (\<lambda>s2. bind_err (search_block re_compile filter_state df filter_source s2)
                (\<lambda>(mask, applied_filters).
                   Inr (if length applied_filters = 0 then df
                        else df\<lparr>rows := map snd (filter fst (zip mask (rows df)))\<rparr>,
                        applied_filters)))))"

text \<open>An example frame and an example state.\<close>

definition df_example :: dataframe where
  "df_example =
     \<lparr>columns = [''Material'', ''Descricao'', ''Deposito'', ''Status'', ''Status_Tempo''],
      rows = [[(''Material'', Some ''100''), (''Descricao'', Some ''Resina''),
               (''Deposito'', Some ''D1''), (''Status'', Some ''Atencao''),
               (''Status_Tempo'', Some ''Bom (>90 dias)'')],
              [(''Material'', Some ''200''), (''Descricao'', None),
               (''Deposito'', Some ''D2''), (''Status'', Some ''Sem Validade''),
               (''Status_Tempo'', Some ''Sem Validade'')],
              [(''Material'', Some ''300''), (''Descricao'', Some ''Cola''),
               (''Deposito'', Some ''D1''), (''Status'', Some ''Sem Validade''),
               (''Status_Tempo'', Some ''Sem Validade'')]]\<rparr>"

definition depot_state :: filter_state where
  "depot_state = initial_filter_state\<lparr>depot_filter := [''D1'']\<rparr>"

definition chart_state :: filter_state where
  "chart_state = initial_filter_state\<lparr>status_filter_from_chart := Some ''Atencao''\<rparr>"

section \<open>Properties of the classifiers\<close>

subsection \<open>Dates\<close>

lemma example_dates:
  "(Timestamp 2024 6 3 - Timestamp 2024 6 1) div ns_per_day = 2"
  "(Timestamp 2024 1 1 - Timestamp 2024 3 1) div ns_per_day = - 60"
  "(Timestamp 2024 1 20 - Timestamp 2024 1 1) div ns_per_day = 19"
  "(Timestamp 2024 2 1 - Timestamp 2024 1 1) div ns_per_day = 31"
  "(Timestamp 2024 1 1 - Timestamp 2024 6 1) div ns_per_day = - 152"
  "(Timestamp 2024 1 1 - Timestamp 2023 1 1) div ns_per_day = 365"
  by (simp_all add: Timestamp_def days_from_civil_def ns_per_day_def)

lemma ns_per_day_pos: "ns_per_day \<noteq> 0"
  by (simp add: ns_per_day_def)

lemma example_years:
  "dt_year (Timestamp 2070 12 31) = 2070"
  "dt_year (Timestamp 2024 1 1) = 2024"
  "dt_year (Timestamp 2024 1 20) = 2024"
  "dt_year (Timestamp 2024 2 1) = 2024"
  "dt_year (Timestamp 2025 1 1) = 2025"
  by code_simp+

subsection \<open>Timeline urgency\<close>

text \<open>
  C8. For every row of the timeline frame and every \<open>hoje\<close>: without an expiration
  date (the cell is missing, or the frame has no such column) the status is
  \<open>SEM_VALIDADE\<close> (Unknown) with level 4; with an expiration date \<open>t\<close>, the days until
  expiration are the whole days of \<open>t - hoje\<close>, and the first matching rule gives
  \<open>VENCIDO\<close> (Expired, level 1) below 0, \<open>CRITICO\<close> (level 2) up to 7, \<open>ATENCAO\<close>
  (Warning, level 3) up to 30 and \<open>NORMAL\<close> (level 4) above.
\<close>

theorem C8_timeline_urgency:
  "i < length (tl_rows df) \<Longrightarrow>
   (let r = tl_rows df ! i; r' = tl_rows (calcular_status_timeline df hoje) ! i;
        e = (if has_Expiration_Date df then Expiration_Date r else None)
    in (e = None \<longrightarrow>
          timeline_row.Status r' = SEM_VALIDADE \<and> Urgency_Level r' = 4
          \<and> Dias_ate_Vencimento r' = None)
     \<and> (e = Some t \<longrightarrow>
          (let d = (t - hoje) div ns_per_day
           in Dias_ate_Vencimento r' = Some d \<and>
              (timeline_row.Status r', Urgency_Level r') =
                (if d < 0 then (VENCIDO, 1) else if d \<le> 7 then (CRITICO, 2)
                 else if d \<le> 30 then (ATENCAO, 3) else (NORMAL, 4)))))"
  by (auto simp: calcular_status_timeline_def status_timeline_row_def Let_def dt_days_def
      lt_na_def le_na_def gt_na_def)

theorem C8_timeline_urgency_witness:
  "0 < length (tl_rows timeline_example) \<and> 1 < length (tl_rows timeline_example)
   \<and> Expiration_Date (tl_rows timeline_example ! 1) = None
   \<and> timeline_row.Status
        (tl_rows (calcular_status_timeline timeline_example (Timestamp 2024 6 1)) ! 1)
       = SEM_VALIDADE
   \<and> Urgency_Level
        (tl_rows (calcular_status_timeline timeline_example (Timestamp 2024 6 1)) ! 1) = 4
   \<and> Expiration_Date (tl_rows timeline_example ! 0) = Some (Timestamp 2024 6 3)
   \<and> Dias_ate_Vencimento
        (tl_rows (calcular_status_timeline timeline_example (Timestamp 2024 6 1)) ! 0) = Some 2
   \<and> timeline_row.Status
        (tl_rows (calcular_status_timeline timeline_example (Timestamp 2024 6 1)) ! 0) = CRITICO
   \<and> Urgency_Level
        (tl_rows (calcular_status_timeline timeline_example (Timestamp 2024 6 1)) ! 0) = 2"
proof -
  have l: "0 < length (tl_rows timeline_example)"
    and l1: "1 < length (tl_rows timeline_example)"
    and e: "Expiration_Date (tl_rows timeline_example ! 0) = Some (Timestamp 2024 6 3)"
    and e1: "Expiration_Date (tl_rows timeline_example ! 1) = None"
    and h: "has_Expiration_Date timeline_example"
    by (simp_all add: timeline_example_def)
  show ?thesis
    using C8_timeline_urgency [OF l, where t = "Timestamp 2024 6 3"
        and hoje = "Timestamp 2024 6 1"]
      C8_timeline_urgency [OF l1, where hoje = "Timestamp 2024 6 1"] l l1 e e1 h
    by (simp add: Let_def example_dates ns_per_day_pos)
qed

subsection \<open>Time status\<close>

lemma status_tempo_Venc_Analise:
  "Venc_Analise (status_tempo_row hoje r) =
     (if is_2070 (Data_de_vencimento r) then None
      else if is_2070 (fillna (Data_de_vencimento r) (Venc_Esperado r)) then None
      else fillna (Data_de_vencimento r) (Venc_Esperado r))"
  by (simp add: status_tempo_row_def Let_def)

lemma status_tempo_keeps:
  "Data_de_entrada (status_tempo_row hoje r) = Data_de_entrada r"
  "Venc_Esperado (status_tempo_row hoje r) = Venc_Esperado r"
  "Tempo_de_Validade (status_tempo_row hoje r) = Tempo_de_Validade r"
  "Dias_Validade (status_tempo_row hoje r) = Dias_Validade r"
  by (simp_all add: status_tempo_row_def Let_def)

lemma status_tempo_Data_de_vencimento:
  "Data_de_vencimento (status_tempo_row hoje r) =
     (if is_2070 (Data_de_vencimento r) then None else Data_de_vencimento r)"
  by (simp add: status_tempo_row_def Let_def)

lemma status_tempo_Dias_Restantes:
  "Dias_Restantes (status_tempo_row hoje r) =
     dt_days (Venc_Analise (status_tempo_row hoje r)) (Some hoje)"
  by (simp add: status_tempo_row_def Let_def)


lemma status_tempo_Status_Tempo:
  "Status_Tempo (status_tempo_row hoje r) =
     (let va = Venc_Analise (status_tempo_row hoje r);
          t = Dias_Validade_Total (status_tempo_row hoje r)
      in if va = None \<or> Data_de_entrada r = None then TEMPO_SEM_VALIDADE
         else if gt_na t 90 then TEMPO_BOM
         else if ge_na t 30 then TEMPO_ATENCAO
         else if ge_na t 0 then TEMPO_CRITICO
         else TEMPO_SEM_VALIDADE)"
  by (simp add: status_tempo_row_def Let_def)








subsection \<open>The year 2070\<close>

text \<open>
  C2. For every row of the frame whose original real expiration date has year 2070,
  the analysis expiration is missing (the expected expiration is not used) and
  \<open>Status_Tempo\<close> is \<open>TEMPO_SEM_VALIDADE\<close> (Unknown). For every row, the real
  expiration date the function leaves is the original one with a year 2070 nulled out,
  the analysis expiration is the real expiration date if there, else the expected
  expiration, both with a year 2070 nulled out, and it never has year 2070.
\<close>

theorem C2_sentinel_2070:
  "i < length df \<Longrightarrow>
   (let r = df ! i; r' = calcular_status_tempo df hoje ! i
    in Data_de_vencimento r' = spec_scrub_2070 (Data_de_vencimento r)
     \<and> Venc_Analise r' =
         (if is_2070 (Data_de_vencimento r) then None
          else fillna (spec_scrub_2070 (Data_de_vencimento r))
                      (spec_scrub_2070 (Venc_Esperado r)))
     \<and> \<not> is_2070 (Venc_Analise r')
     \<and> (is_2070 (Data_de_vencimento r) \<longrightarrow>
          Venc_Analise r' = None \<and> Status_Tempo r' = TEMPO_SEM_VALIDADE))"
  unfolding Let_def calcular_status_tempo_def
  by (cases "Data_de_vencimento (df ! i)"; cases "Venc_Esperado (df ! i)")
     (auto simp: status_tempo_Data_de_vencimento status_tempo_Venc_Analise
        status_tempo_Status_Tempo spec_scrub_2070_def is_2070_def fillna_def)

theorem C2_sentinel_2070_witness:
  "0 < length [row_sentinel]
   \<and> is_2070 (Data_de_vencimento ([row_sentinel] ! 0))
   \<and> Venc_Esperado ([row_sentinel] ! 0) = Some (Timestamp 2025 1 1)
   \<and> Venc_Analise (calcular_status_tempo [row_sentinel] (Timestamp 2024 6 1) ! 0) = None
   \<and> Status_Tempo (calcular_status_tempo [row_sentinel] (Timestamp 2024 6 1) ! 0)
       = TEMPO_SEM_VALIDADE"
proof -
  have l: "0 < length [row_sentinel]" by simp
  have s: "is_2070 (Data_de_vencimento ([row_sentinel] ! 0))"
    "Venc_Esperado ([row_sentinel] ! 0) = Some (Timestamp 2025 1 1)"
    by (simp_all add: row_sentinel_def blank_row_def is_2070_def example_years)
  show ?thesis
    using C2_sentinel_2070 [OF l, where hoje = "Timestamp 2024 6 1"] s
    by (simp add: Let_def)
qed

subsection \<open>Percent conformance\<close>

lemma status_percentual_Validade_Real:
  "Validade_Real (status_percentual_row hoje lb la r) =
     dt_days (Data_de_vencimento r) (Data_de_entrada r)"
  by (cases "Data_de_vencimento r"; cases "Data_de_entrada r")
     (simp_all add: status_percentual_row_def Let_def dt_days_def)

lemma status_percentual_Pct_Restante:
  "Pct_Restante (status_percentual_row hoje lb la r) =
     (case (dt_days (Data_de_vencimento r) (Data_de_entrada r), Dias_Validade r) of
        (Some v, Some d) \<Rightarrow> if d > 0 then Some (clip 0 200 (of_int v / d * 100)) else None
      | _ \<Rightarrow> None)"
  by (cases "Data_de_vencimento r"; cases "Data_de_entrada r"; cases "Dias_Validade r")
     (simp_all add: status_percentual_row_def Let_def dt_days_def gt_na_def)

lemma status_percentual_Status:
  "Status (status_percentual_row hoje lb la r) =
     (case Pct_Restante (status_percentual_row hoje lb la r) of
        None \<Rightarrow> PCT_SEM_VALIDADE
      | Some p \<Rightarrow> if p < la then PCT_FORA else if p < lb then PCT_ATENCAO else PCT_DENTRO)"
proof -
  have "Status (status_percentual_row hoje lb la r) =
     (let pct = Pct_Restante (status_percentual_row hoje lb la r)
      in if pct \<noteq> None \<and> lt_na pct la then PCT_FORA
         else if pct \<noteq> None \<and> ge_na pct la \<and> lt_na pct lb then PCT_ATENCAO
         else if pct \<noteq> None \<and> ge_na pct lb then PCT_DENTRO else PCT_SEM_VALIDADE)"
    by (simp add: status_percentual_row_def Let_def split del: if_split cong: if_cong)
  then show ?thesis
    by (cases "Pct_Restante (status_percentual_row hoje lb la r)")
       (auto simp: Let_def lt_na_def ge_na_def)
qed

lemma status_percentual_keeps:
  "Data_de_vencimento (status_percentual_row hoje lb la r) = Data_de_vencimento r"
  "Venc_Esperado (status_percentual_row hoje lb la r) = Venc_Esperado r"
  "Tempo_de_Validade (status_percentual_row hoje lb la r) = Tempo_de_Validade r"
  "Dias_Restantes (status_percentual_row hoje lb la r) = Dias_Restantes r"
  "Dias_Validade (status_percentual_row hoje lb la r) = Dias_Validade r"
  by (simp_all add: status_percentual_row_def Let_def split del: if_split cong: if_cong)

text \<open>
  C5. For every row of the frame, \<open>Validade_Real\<close> (the real shelf life in days) is the
  whole days from the entry date to the real expiration date, there when both dates
  are; \<open>Pct_Restante\<close> (the percent conformance) is defined if and only if
  \<open>Validade_Real\<close> is there and \<open>Dias_Validade\<close> (the shelf life in days) is there and
  positive; when defined it is \<open>Validade_Real / Dias_Validade * 100\<close> clamped to
  \<open>[0, 200]\<close>, so it lies between 0 and 200.
\<close>

theorem C5_percent_conformance:
  "i < length df \<Longrightarrow>
   (let r = df ! i; r' = calcular_status_percentual df hoje limiar_bom limiar_atencao ! i
    in Validade_Real r' = dt_days (Data_de_vencimento r) (Data_de_entrada r)
     \<and> Dias_Validade r' = Dias_Validade r
     \<and> (Pct_Restante r' \<noteq> None \<longleftrightarrow>
          Validade_Real r' \<noteq> None \<and> Dias_Validade r' \<noteq> None \<and> gt_na (Dias_Validade r') 0)
     \<and> (Validade_Real r' = Some v \<and> Dias_Validade r' = Some d \<and> d > 0 \<longrightarrow>
          Pct_Restante r' = Some (max 0 (min 200 (of_int v / d * 100))))
     \<and> (Pct_Restante r' = Some p \<longrightarrow> 0 \<le> p \<and> p \<le> 200))"
  unfolding Let_def calcular_status_percentual_def
  by (cases "dt_days (Data_de_vencimento (df ! i)) (Data_de_entrada (df ! i))";
      cases "Dias_Validade (df ! i)")
     (auto simp: status_percentual_Validade_Real status_percentual_Pct_Restante
        status_percentual_keeps clip_def gt_na_def)

lemma row_conformance_fields:
  "Data_de_entrada row_conformance = Some (Timestamp 2024 1 1)"
  "Data_de_vencimento row_conformance = Some (Timestamp 2024 2 1)"
  "Dias_Validade row_conformance = Some 100"
  by (simp_all add: row_conformance_def blank_row_def)

theorem C5_percent_conformance_witness:
  "0 < length [row_conformance]
   \<and> Validade_Real (calcular_status_percentual [row_conformance] (Timestamp 2024 6 1) 90 50 ! 0)
       = Some 31
   \<and> Dias_Validade (calcular_status_percentual [row_conformance] (Timestamp 2024 6 1) 90 50 ! 0)
       = Some 100
   \<and> Pct_Restante (calcular_status_percentual [row_conformance] (Timestamp 2024 6 1) 90 50 ! 0)
       = Some 31"
proof -
  have l: "0 < length [row_conformance]" by simp
  have d: "dt_days (Data_de_vencimento ([row_conformance] ! 0))
             (Data_de_entrada ([row_conformance] ! 0)) = Some 31"
    by (simp add: row_conformance_fields dt_days_def example_dates)
  show ?thesis
    using C5_percent_conformance [OF l, where hoje = "Timestamp 2024 6 1"
        and limiar_bom = 90 and limiar_atencao = 50 and v = 31 and d = 100 and p = 31] d
    by (simp add: Let_def row_conformance_fields)
qed

subsection \<open>Divergences\<close>

lemma divergencias_Tipo_Problema:
  "Tipo_Problema (divergencias_row c r) =
     np_select (divergencias_conds c r) divergencias_choices []"
  by (simp add: divergencias_row_def Let_def divergencias_conds_def)

lemma divergencias_Tem_Problema:
  "Tem_Problema (divergencias_row c r) = (Tipo_Problema (divergencias_row c r) \<noteq> [])"
  by (simp add: divergencias_row_def Let_def)

lemma divergencias_labels:
  "SEM_TEMPO_CADASTRADO \<noteq> []" "SEM_DATA_REAL \<noteq> []" "SEM_TEMPO_PARA_CALCULAR \<noteq> []"
  "MATERIAL_VENCIDO \<noteq> []" "DESVIO_CRITICO \<noteq> []"
  "SEM_TEMPO_CADASTRADO \<noteq> SEM_DATA_REAL" "SEM_TEMPO_CADASTRADO \<noteq> SEM_TEMPO_PARA_CALCULAR"
  "SEM_TEMPO_CADASTRADO \<noteq> MATERIAL_VENCIDO" "SEM_TEMPO_CADASTRADO \<noteq> DESVIO_CRITICO"
  "SEM_DATA_REAL \<noteq> SEM_TEMPO_PARA_CALCULAR" "SEM_DATA_REAL \<noteq> MATERIAL_VENCIDO"
  "SEM_DATA_REAL \<noteq> DESVIO_CRITICO" "SEM_TEMPO_PARA_CALCULAR \<noteq> MATERIAL_VENCIDO"
  "SEM_TEMPO_PARA_CALCULAR \<noteq> DESVIO_CRITICO" "MATERIAL_VENCIDO \<noteq> DESVIO_CRITICO"
  by (simp_all add: SEM_TEMPO_CADASTRADO_def SEM_DATA_REAL_def
      SEM_TEMPO_PARA_CALCULAR_def MATERIAL_VENCIDO_def DESVIO_CRITICO_def)

lemma lt_na_ex: "lt_na x k = (\<exists>d. x = Some d \<and> d < k)"
  by (cases x) (simp_all add: lt_na_def)

lemma divergencias_row_decision:
  "Tipo_Problema (divergencias_row has_tempo r) =
     (if has_tempo \<and> Tempo_de_Validade r = None
          \<and> (Data_de_vencimento r \<noteq> None \<or> Venc_Esperado r \<noteq> None)
      then SEM_TEMPO_CADASTRADO
      else if Data_de_vencimento r = None \<and> Venc_Esperado r \<noteq> None then SEM_DATA_REAL
      else if Data_de_vencimento r \<noteq> None \<and> Venc_Esperado r = None
      then SEM_TEMPO_PARA_CALCULAR
      else if (\<exists>d. Dias_Restantes r = Some d \<and> d < 0) then MATERIAL_VENCIDO
      else if Status r = PCT_FORA then DESVIO_CRITICO
      else [])"
  unfolding divergencias_Tipo_Problema divergencias_conds_def divergencias_choices_def
    lt_na_ex [symmetric]
  by (cases "Data_de_vencimento r"; cases "Venc_Esperado r") simp_all

text \<open>
  C3, as the code has it. For every row of the frame, with the five conditions of the
  source over the columns of the row, in their order (1: no declared shelf-life text
  and a real or an expected expiration; 2: no real expiration and an expected one;
  3: a real expiration and no expected one; 4: negative remaining days; 5: the percent
  status \<open>PCT_FORA\<close>): \<open>Tipo_Problema\<close> is the tag of the first condition that holds,
  and empty when none holds, and \<open>Tem_Problema\<close> says whether one holds. So when two
  consecutive conditions both hold the tag is never the one of the later, and it is the
  one of the earlier when no condition before it holds: for conditions 1 and 2 it is
  the tag of condition 1; conditions 2 and 3 exclude each other; for conditions 3 and 4
  it is the tag of condition 3 unless condition 1 holds; for conditions 4 and 5 it is
  the tag of condition 4 unless one of the conditions 1 to 3 holds.
\<close>

theorem C3_divergence_priority:
  "i < length df \<Longrightarrow>
   (let r = df ! i; r' = identificar_divergencias has_tempo df ! i;
        c1 = (has_tempo \<and> Tempo_de_Validade r = None
              \<and> (Data_de_vencimento r \<noteq> None \<or> Venc_Esperado r \<noteq> None));
        c2 = (Data_de_vencimento r = None \<and> Venc_Esperado r \<noteq> None);
        c3 = (Data_de_vencimento r \<noteq> None \<and> Venc_Esperado r = None);
        c4 = (\<exists>d. Dias_Restantes r = Some d \<and> d < 0);
        c5 = (Status r = PCT_FORA)
    in Tipo_Problema r' =
         (if c1 then SEM_TEMPO_CADASTRADO else if c2 then SEM_DATA_REAL
          else if c3 then SEM_TEMPO_PARA_CALCULAR else if c4 then MATERIAL_VENCIDO
          else if c5 then DESVIO_CRITICO else [])
     \<and> Tem_Problema r' = (c1 \<or> c2 \<or> c3 \<or> c4 \<or> c5)
     \<and> (c1 \<and> c2 \<longrightarrow>
          Tipo_Problema r' = SEM_TEMPO_CADASTRADO \<and> Tipo_Problema r' \<noteq> SEM_DATA_REAL)
     \<and> \<not> (c2 \<and> c3)
     \<and> (c3 \<and> c4 \<longrightarrow>
          Tipo_Problema r' \<noteq> MATERIAL_VENCIDO
          \<and> (\<not> c1 \<longrightarrow> Tipo_Problema r' = SEM_TEMPO_PARA_CALCULAR))
     \<and> (c4 \<and> c5 \<longrightarrow>
          Tipo_Problema r' \<noteq> DESVIO_CRITICO
          \<and> (\<not> c1 \<and> \<not> c2 \<and> \<not> c3 \<longrightarrow> Tipo_Problema r' = MATERIAL_VENCIDO))
     \<and> (\<not> c1 \<and> \<not> c2 \<and> \<not> c3 \<and> \<not> c4 \<and> \<not> c5 \<longrightarrow>
          Tipo_Problema r' = [] \<and> \<not> Tem_Problema r'))"
proof -
  assume "i < length df"
  then have r': "identificar_divergencias has_tempo df ! i = divergencias_row has_tempo (df ! i)"
    by (simp add: identificar_divergencias_def)
  show ?thesis
    unfolding Let_def r' divergencias_Tem_Problema divergencias_row_decision
    using divergencias_labels by auto
qed

lemma row_no_shelf_life_fields:
  "Tempo_de_Validade row_no_shelf_life = None"
  "Data_de_vencimento row_no_shelf_life = Some (Timestamp 2024 1 1)"
  "Venc_Esperado row_no_shelf_life = None"
  "Dias_Restantes row_no_shelf_life = Some (- 152)"
  "Status row_no_shelf_life = PCT_SEM_VALIDADE"
proof -
  let ?h = "Timestamp 2024 6 1"
  let ?r0 = "blank_row\<lparr>Data_de_entrada := Some (Timestamp 2023 1 1),
                       Data_de_vencimento := Some (Timestamp 2024 1 1)\<rparr>"
  let ?r1 = "status_tempo_row ?h ?r0"
  have f0: "Data_de_entrada ?r0 = Some (Timestamp 2023 1 1)"
    "Data_de_vencimento ?r0 = Some (Timestamp 2024 1 1)"
    "Venc_Esperado ?r0 = None" "Tempo_de_Validade ?r0 = None" "Dias_Validade ?r0 = None"
    by (simp_all add: blank_row_def)
  have n: "\<not> is_2070 (Some (Timestamp 2024 1 1))"
    by (simp add: is_2070_def example_years)
  have va: "Venc_Analise ?r1 = Some (Timestamp 2024 1 1)"
    by (simp add: status_tempo_Venc_Analise f0 fillna_def n)
  have dv: "Data_de_vencimento ?r1 = Some (Timestamp 2024 1 1)"
    by (simp add: status_tempo_Data_de_vencimento f0 n)
  have dr: "Dias_Restantes ?r1 = Some (- 152)"
    by (simp add: status_tempo_Dias_Restantes va dt_days_def example_dates)
  have pct: "Pct_Restante (status_percentual_row ?h 90 50 ?r1) = None"
    by (simp add: status_percentual_Pct_Restante status_tempo_keeps f0 split: option.splits)
  show "Tempo_de_Validade row_no_shelf_life = None"
    "Data_de_vencimento row_no_shelf_life = Some (Timestamp 2024 1 1)"
    "Venc_Esperado row_no_shelf_life = None"
    "Dias_Restantes row_no_shelf_life = Some (- 152)"
    "Status row_no_shelf_life = PCT_SEM_VALIDADE"
    unfolding row_no_shelf_life_def
    by (simp_all add: status_percentual_keeps status_tempo_keeps f0 dv dr
        status_percentual_Status pct)
qed

lemma example_rows_fields:
  "Tempo_de_Validade row_no_text_no_real = None"
  "Data_de_vencimento row_no_text_no_real = None"
  "Venc_Esperado row_no_text_no_real = Some (Timestamp 2025 1 1)"
  "Tempo_de_Validade row_unparsed_expired = Some ''abc''"
  "Data_de_vencimento row_unparsed_expired = Some (Timestamp 2024 1 1)"
  "Venc_Esperado row_unparsed_expired = None"
  "Dias_Restantes row_unparsed_expired = Some (- 152)"
  "Tempo_de_Validade row_expired_critical = Some ''100 dias''"
  "Data_de_vencimento row_expired_critical = Some (Timestamp 2024 2 1)"
  "Venc_Esperado row_expired_critical = Some (Timestamp 2024 4 10)"
  "Dias_Restantes row_expired_critical = Some (- 121)"
  "Status row_expired_critical = PCT_FORA"
  "Tempo_de_Validade blank_row = None" "Data_de_vencimento blank_row = None"
  "Venc_Esperado blank_row = None" "Dias_Restantes blank_row = None"
  "Status blank_row = []"
  by (simp_all add: row_no_text_no_real_def row_unparsed_expired_def
      row_expired_critical_def blank_row_def)

theorem C3_divergence_priority_witness:
  "Tempo_de_Validade row_no_text_no_real = None
   \<and> Data_de_vencimento row_no_text_no_real = None
   \<and> Venc_Esperado row_no_text_no_real = Some (Timestamp 2025 1 1)
   \<and> Tipo_Problema (identificar_divergencias True [row_no_text_no_real] ! 0)
       = SEM_TEMPO_CADASTRADO
   \<and> Tem_Problema (identificar_divergencias True [row_no_text_no_real] ! 0)
   \<and> Tempo_de_Validade row_unparsed_expired = Some ''abc''
   \<and> Data_de_vencimento row_unparsed_expired = Some (Timestamp 2024 1 1)
   \<and> Venc_Esperado row_unparsed_expired = None
   \<and> Dias_Restantes row_unparsed_expired = Some (- 152)
   \<and> Tipo_Problema (identificar_divergencias True [row_unparsed_expired] ! 0)
       = SEM_TEMPO_PARA_CALCULAR
   \<and> Data_de_vencimento row_expired_critical = Some (Timestamp 2024 2 1)
   \<and> Venc_Esperado row_expired_critical = Some (Timestamp 2024 4 10)
   \<and> Dias_Restantes row_expired_critical = Some (- 121)
   \<and> Status row_expired_critical = PCT_FORA
   \<and> Tipo_Problema (identificar_divergencias True [row_expired_critical] ! 0)
       = MATERIAL_VENCIDO
   \<and> Tipo_Problema (identificar_divergencias True [blank_row] ! 0) = []
   \<and> \<not> Tem_Problema (identificar_divergencias True [blank_row] ! 0)"
proof -
  have ne: "[] \<noteq> PCT_FORA" by (simp add: PCT_FORA_def)
  have l: "0 < length [x]" for x :: row by simp
  show ?thesis
    using C3_divergence_priority [OF l, where has_tempo = True and x1 = row_no_text_no_real]
      C3_divergence_priority [OF l, where has_tempo = True and x1 = row_unparsed_expired]
      C3_divergence_priority [OF l, where has_tempo = True and x1 = row_expired_critical]
      C3_divergence_priority [OF l, where has_tempo = True and x1 = blank_row]
    by (simp add: Let_def example_rows_fields ne)
qed

theorem C3_earlier_rule_counterexample:
  "Tempo_de_Validade ([row_no_shelf_life] ! 0) = None
   \<and> Data_de_vencimento ([row_no_shelf_life] ! 0) = Some (Timestamp 2024 1 1)
   \<and> Venc_Esperado ([row_no_shelf_life] ! 0) = None
   \<and> Dias_Restantes ([row_no_shelf_life] ! 0) = Some (- 152)
   \<and> Tipo_Problema (identificar_divergencias True [row_no_shelf_life] ! 0)
       = SEM_TEMPO_CADASTRADO
   \<and> Tipo_Problema (identificar_divergencias True [row_no_shelf_life] ! 0)
       \<noteq> SEM_TEMPO_PARA_CALCULAR"
proof -
  have t: "Tipo_Problema (divergencias_row True row_no_shelf_life) = SEM_TEMPO_CADASTRADO"
    by (simp add: divergencias_row_decision row_no_shelf_life_fields)
  show ?thesis
    using divergencias_labels(7)
    by (simp add: identificar_divergencias_def t row_no_shelf_life_fields)
qed

section \<open>Properties of the duration parser\<close>

lemma char_of_eq: "(char_of (n::nat) = c) = (n mod 256 = of_char c)"
  "(c = char_of (n::nat)) = (n mod 256 = of_char c)"
  using char_of_eq_iff [of n c] by (auto simp: take_bit_eq_mod)

lemma digit_facts:
  assumes "is_digit c"
  shows "\<not> py_isspace c" "py_lower_char c = c" "c \<noteq> CHR '',''" "c \<noteq> CHR ''-''" "c \<noteq> CHR ''+''"
    "c \<noteq> CHR ''.''" "c \<notin> set ''mesoanyrdi''" "c \<noteq> CHR '' ''"
  using assms by (auto simp: is_digit_def py_isspace_def py_lower_char_def)

lemma num_char_facts:
  assumes "is_num_char c"
  shows "py_lower_char c = c" "c \<noteq> CHR '',''" "c \<notin> set ''mesoanyrdi''"
proof -
  from assms consider "is_digit c" | "c = CHR ''+''" | "c = CHR ''-''" | "c = CHR ''.''"
    | "c = CHR '' ''"
    by (auto simp: is_num_char_def)
  then have "py_lower_char c = c \<and> c \<noteq> CHR '','' \<and> c \<notin> set ''mesoanyrdi''"
  proof cases
    case 1
    then show ?thesis using digit_facts [of c] by blast
  qed (simp_all add: py_lower_char_def)
  then show "py_lower_char c = c" "c \<noteq> CHR '',''" "c \<notin> set ''mesoanyrdi''"
    by blast+
qed

lemma unit_char_facts:
  assumes "c \<in> set ''mesoanyrdi''"
  shows "py_lower_char c = c" "c \<noteq> CHR '',''" "\<not> py_isspace c" "\<not> is_digit c"
  using assms by (auto simp: py_lower_char_def py_isspace_def is_digit_def)

lemma strip_id:
  assumes "s \<noteq> []" "\<not> py_isspace (hd s)" "\<not> py_isspace (last s)"
  shows "strip s = s"
proof -
  from assms have 1: "dropWhile py_isspace s = s" by (cases s) auto
  from assms have "rev s \<noteq> []" "\<not> py_isspace (hd (rev s))" by (auto simp: hd_rev)
  then have "dropWhile py_isspace (rev s) = rev s" by (cases "rev s") auto
  with 1 show ?thesis by (simp add: strip_def)
qed

lemma is_in_skip:
  assumes "a \<notin> set xs"
  shows "is_in (a # w) (xs @ ys) = is_in (a # w) ys"
  using assms by (induction xs) auto

lemma search_word_skip:
  assumes "a \<notin> set xs"
  shows "search_word_from (a # w) p (xs @ ys) =
         search_word_from (a # w) (if xs = [] then p else Some (last xs)) ys"
  using assms
proof (induction xs arbitrary: p)
  case Nil
  then show ?case by simp
next
  case (Cons x xs)
  then have "\<not> word_at (a # w) p (x # xs @ ys)" by (auto simp: word_at_def)
  with Cons show ?case by auto
qed

lemma is_in_sublist: "is_in sub s = sublist sub s"
  by (induction s) (simp_all add: sublist_Cons_right)

lemma search_word_from_spec:
  assumes "w \<noteq> []"
  shows "search_word_from w prev s =
     (\<exists>p q. s = p @ w @ q
        \<and> boundary (if p = [] then prev else Some (last p)) (Some (hd w))
        \<and> boundary (Some (last w)) (if q = [] then None else Some (hd q)))"
proof (induction s arbitrary: prev)
  case Nil
  then show ?case using assms by simp
next
  case (Cons c cs)
  have here: "word_at w prev (c # cs) =
     (\<exists>q. c # cs = w @ q \<and> boundary prev (Some (hd w))
        \<and> boundary (Some (last w)) (if q = [] then None else Some (hd q)))"
  proof
    assume a: "word_at w prev (c # cs)"
    then obtain q where q: "c # cs = w @ q" by (auto simp: word_at_def prefix_def)
    then have "drop (length w) (c # cs) = q" by (metis append_eq_conv_conj)
    with a q show "\<exists>q. c # cs = w @ q \<and> boundary prev (Some (hd w))
        \<and> boundary (Some (last w)) (if q = [] then None else Some (hd q))"
      by (cases q) (auto simp: word_at_def)
  next
    assume "\<exists>q. c # cs = w @ q \<and> boundary prev (Some (hd w))
        \<and> boundary (Some (last w)) (if q = [] then None else Some (hd q))"
    then obtain q where q: "c # cs = w @ q" "boundary prev (Some (hd w))"
      "boundary (Some (last w)) (if q = [] then None else Some (hd q))" by blast
    then have "drop (length w) (c # cs) = q" by (metis append_eq_conv_conj)
    with q assms show "word_at w prev (c # cs)"
      by (cases q) (auto simp: word_at_def)
  qed
  have later: "(\<exists>p q. cs = p @ w @ q
        \<and> boundary (if p = [] then Some c else Some (last p)) (Some (hd w))
        \<and> boundary (Some (last w)) (if q = [] then None else Some (hd q)))
     = (\<exists>p q. p \<noteq> [] \<and> c # cs = p @ w @ q
        \<and> boundary (Some (last p)) (Some (hd w))
        \<and> boundary (Some (last w)) (if q = [] then None else Some (hd q)))"
  proof
    assume "\<exists>p q. cs = p @ w @ q
        \<and> boundary (if p = [] then Some c else Some (last p)) (Some (hd w))
        \<and> boundary (Some (last w)) (if q = [] then None else Some (hd q))"
    then obtain p q where pq: "cs = p @ w @ q"
        "boundary (if p = [] then Some c else Some (last p)) (Some (hd w))"
        "boundary (Some (last w)) (if q = [] then None else Some (hd q))" by blast
    then have "c # p \<noteq> [] \<and> c # cs = (c # p) @ w @ q
        \<and> boundary (Some (last (c # p))) (Some (hd w))
        \<and> boundary (Some (last w)) (if q = [] then None else Some (hd q))"
      by (cases "p = []") simp_all
    then show "\<exists>p q. p \<noteq> [] \<and> c # cs = p @ w @ q
        \<and> boundary (Some (last p)) (Some (hd w))
        \<and> boundary (Some (last w)) (if q = [] then None else Some (hd q))" by blast
  next
    assume "\<exists>p q. p \<noteq> [] \<and> c # cs = p @ w @ q
        \<and> boundary (Some (last p)) (Some (hd w))
        \<and> boundary (Some (last w)) (if q = [] then None else Some (hd q))"
    then obtain p q where pq: "p \<noteq> []" "c # cs = p @ w @ q"
        "boundary (Some (last p)) (Some (hd w))"
        "boundary (Some (last w)) (if q = [] then None else Some (hd q))" by blast
    then obtain p' where p': "p = c # p'" by (cases p) auto
    with pq have "cs = p' @ w @ q
        \<and> boundary (if p' = [] then Some c else Some (last p')) (Some (hd w))
        \<and> boundary (Some (last w)) (if q = [] then None else Some (hd q))"
      by (cases "p' = []") simp_all
    then show "\<exists>p q. cs = p @ w @ q
        \<and> boundary (if p = [] then Some c else Some (last p)) (Some (hd w))
        \<and> boundary (Some (last w)) (if q = [] then None else Some (hd q))" by blast
  qed
  have split: "(\<exists>p q. c # cs = p @ w @ q
        \<and> boundary (if p = [] then prev else Some (last p)) (Some (hd w))
        \<and> boundary (Some (last w)) (if q = [] then None else Some (hd q)))
     = ((\<exists>q. c # cs = w @ q \<and> boundary prev (Some (hd w))
           \<and> boundary (Some (last w)) (if q = [] then None else Some (hd q)))
        \<or> (\<exists>p q. p \<noteq> [] \<and> c # cs = p @ w @ q
           \<and> boundary (Some (last p)) (Some (hd w))
           \<and> boundary (Some (last w)) (if q = [] then None else Some (hd q))))"
    (is "?L = (?A \<or> ?B)")
  proof
    assume ?L
    then obtain p q where pq: "c # cs = p @ w @ q"
        "boundary (if p = [] then prev else Some (last p)) (Some (hd w))"
        "boundary (Some (last w)) (if q = [] then None else Some (hd q))" by blast
    show "?A \<or> ?B"
    proof (cases "p = []")
      case True
      with pq have "c # cs = w @ q \<and> boundary prev (Some (hd w))
           \<and> boundary (Some (last w)) (if q = [] then None else Some (hd q))" by simp
      then have ?A by (rule exI)
      then show ?thesis ..
    next
      case False
      with pq have "p \<noteq> [] \<and> c # cs = p @ w @ q
           \<and> boundary (Some (last p)) (Some (hd w))
           \<and> boundary (Some (last w)) (if q = [] then None else Some (hd q))" by simp
      then have ?B by blast
      then show ?thesis ..
    qed
  next
    assume "?A \<or> ?B"
    then show ?L
    proof
      assume ?A
      then obtain q where q: "c # cs = w @ q" "boundary prev (Some (hd w))"
        "boundary (Some (last w)) (if q = [] then None else Some (hd q))" by blast
      show ?L
        by (rule exI [of _ "[]"], rule exI [of _ q]) (simp add: q)
    next
      assume ?B
      then obtain p q where pq: "p \<noteq> []" "c # cs = p @ w @ q"
        "boundary (Some (last p)) (Some (hd w))"
        "boundary (Some (last w)) (if q = [] then None else Some (hd q))" by blast
      show ?L
        by (rule exI [of _ p], rule exI [of _ q]) (simp add: pq)
    qed
  qed
  show ?case
    unfolding search_word_from.simps Cons.IH here split later ..
qed

lemma re_search_word_spec:
  assumes "w \<noteq> []" "is_word_char (hd w)" "is_word_char (last w)"
  shows "re_search_word w s = spec_word_in w s"
proof -
  have b1: "boundary (if p = [] then None else Some (last p)) (Some (hd w))
            = (p = [] \<or> \<not> is_word_char (last p))" for p
    using assms(2) by (simp add: boundary_def)
  have b2: "boundary (Some (last w)) (if q = [] then None else Some (hd q))
            = (q = [] \<or> \<not> is_word_char (hd q))" for q
    using assms(3) by (simp add: boundary_def)
  show ?thesis
    unfolding re_search_word_def search_word_from_spec [OF assms(1)] spec_word_in_def b1 b2 ..
qed

lemma indicators_spec:
  "month_indicator s = (sublist ''mes'' s \<or> spec_word_in ''mo'' s)"
  "year_indicator s = (sublist ''ano'' s \<or> sublist ''anos'' s \<or> sublist ''year'' s)"
  "day_indicator s = (sublist ''dia'' s \<or> sublist ''dias'' s \<or> spec_word_in ''d'' s)"
proof -
  have "re_search_word ''mo'' s = spec_word_in ''mo'' s"
    by (rule re_search_word_spec) (simp_all add: is_word_char_def)
  then show "month_indicator s = (sublist ''mes'' s \<or> spec_word_in ''mo'' s)"
    by (simp only: month_indicator_def is_in_sublist)
  show "year_indicator s = (sublist ''ano'' s \<or> sublist ''anos'' s \<or> sublist ''year'' s)"
    by (simp only: year_indicator_def is_in_sublist)
  have "re_search_word ''d'' s = spec_word_in ''d'' s"
    by (rule re_search_word_spec) (simp_all add: is_word_char_def)
  then show "day_indicator s = (sublist ''dia'' s \<or> sublist ''dias'' s \<or> spec_word_in ''d'' s)"
    by (simp only: day_indicator_def is_in_sublist)
qed

lemma while_run:
  assumes "\<forall>c\<in>set ds. P c" "ys = [] \<or> \<not> P (hd ys)"
  shows "takeWhile P (ds @ ys) = ds" "dropWhile P (ds @ ys) = ys"
  using assms by (cases ys; simp add: takeWhile_append2 dropWhile_append2)+

lemma match_number_numeral:
  assumes "wf_numeral sg ds fs"
  shows "match_number (spec_numeral sg ds fs @ CHR '' '' # u) = Some (spec_numeral sg ds fs)"
proof -
  from assms have ds: "ds \<noteq> []" "\<forall>c\<in>set ds. is_digit c" and fs: "\<forall>c\<in>set fs. is_digit c"
    and sg: "sg = [] \<or> sg = ''+'' \<or> sg = ''-''"
    by (auto simp: wf_numeral_def)
  define tail where "tail = (if fs = [] then [] else CHR ''.'' # fs) @ CHR '' '' # u"
  have nd: "\<not> is_digit CHR ''.''" "\<not> is_digit CHR '' ''" by (simp_all add: is_digit_def)
  have tail: "tail = [] \<or> \<not> is_digit (hd tail)" by (simp add: tail_def nd)
  have run: "takeWhile is_digit (ds @ tail) = ds" "dropWhile is_digit (ds @ tail) = tail"
    using while_run [OF ds(2) tail] by simp_all
  have frun: "takeWhile is_digit (fs @ CHR '' '' # u) = fs"
    using while_run(1) [OF fs, of "CHR '' '' # u"] by (simp add: nd)
  obtain d ds' where dd: "ds = d # ds'" using ds(1) by (cases ds) auto
  then have d: "d \<noteq> CHR ''-''" "d \<noteq> CHR ''+''" using ds(2) digit_facts [of d] by auto
  have split: "(case sg @ ds @ tail of
            c # cs \<Rightarrow> if c = CHR ''-'' \<or> c = CHR ''+'' then ([c], cs) else ([], sg @ ds @ tail)
          | [] \<Rightarrow> ([], sg @ ds @ tail)) = (sg, ds @ tail)"
    using sg d by (auto simp: dd)
  have eq: "spec_numeral sg ds fs @ CHR '' '' # u = sg @ ds @ tail"
    by (simp add: spec_numeral_def tail_def)
  have body: "(case tail of
            c # cs \<Rightarrow>
              if c = CHR ''.'' \<and> takeWhile is_digit cs \<noteq> []
              then Some (sg @ ds @ [c] @ takeWhile is_digit cs)
              else Some (sg @ ds)
          | [] \<Rightarrow> Some (sg @ ds)) = Some (spec_numeral sg ds fs)"
    by (cases "fs = []") (simp_all add: tail_def frun spec_numeral_def)
  have "match_number (sg @ ds @ tail) = Some (spec_numeral sg ds fs)"
    unfolding match_number_def split
    by (simp only: Let_def prod.case run ds(1) if_False body)
  then show ?thesis by (simp only: eq)
qed

lemma re_search_number_numeral:
  assumes "wf_numeral sg ds fs"
  shows "re_search_number (spec_numeral sg ds fs @ CHR '' '' # u) = Some (spec_numeral sg ds fs)"
proof -
  obtain c cs where "spec_numeral sg ds fs @ CHR '' '' # u = c # cs"
    by (cases "spec_numeral sg ds fs @ CHR '' '' # u") auto
  then show ?thesis using match_number_numeral [OF assms, of u] by simp
qed

lemma float_of_numeral:
  assumes "wf_numeral sg ds fs"
  shows "float_of (spec_numeral sg ds fs) = spec_number sg ds fs"
proof -
  from assms have ds: "ds \<noteq> []" "\<forall>c\<in>set ds. is_digit c" and fs: "\<forall>c\<in>set fs. is_digit c"
    and sg: "sg = [] \<or> sg = ''+'' \<or> sg = ''-''"
    by (auto simp: wf_numeral_def)
  define tail where "tail = (if fs = [] then [] else CHR ''.'' # fs)"
  have nd: "\<not> is_digit CHR ''.''" by (simp add: is_digit_def)
  have tail: "tail = [] \<or> \<not> is_digit (hd tail)" by (simp add: tail_def nd)
  have run: "takeWhile is_digit (ds @ tail) = ds" "dropWhile is_digit (ds @ tail) = tail"
    using while_run [OF ds(2) tail] by simp_all
  have dt: "drop (Suc 0) tail = fs" "length tail - Suc 0 = length fs" by (simp_all add: tail_def)
  obtain d ds' where dd: "ds = d # ds'" using ds(1) by (cases ds) auto
  then have d: "d \<noteq> CHR ''-''" "d \<noteq> CHR ''+''" using ds(2) digit_facts [of d] by auto
  have split: "(case sg @ ds @ tail of
            c # cs \<Rightarrow> if c = CHR ''-'' then (True, cs)
                      else if c = CHR ''+'' then (False, cs) else (False, sg @ ds @ tail)
          | [] \<Rightarrow> (False, sg @ ds @ tail)) = (sg = ''-'', ds @ tail)"
    using sg d by (auto simp: dd)
  have eq: "spec_numeral sg ds fs = sg @ ds @ tail"
    by (simp add: spec_numeral_def tail_def)
  have "float_of (sg @ ds @ tail) = spec_number sg ds fs"
    unfolding float_of_def split by (simp add: run dt Let_def spec_number_def)
  then show ?thesis by (simp only: eq)
qed


lemma numeral_chars:
  assumes "wf_numeral sg ds fs" "set g \<subseteq> {CHR '' ''}" "c \<in> set (spec_numeral sg ds fs @ g)"
  shows "is_num_char c"
  using assms by (auto simp: wf_numeral_def spec_numeral_def is_num_char_def split: if_splits)

lemma written_numeral:
  assumes wf: "wf_numeral sg ds fs" and sep: "sep = CHR ''.'' \<or> sep = CHR '',''"
  shows "spec_numeral_written sg ds sep fs \<noteq> []"
    and "\<not> py_isspace (hd (spec_numeral_written sg ds sep fs))"
    and "map py_lower_char (spec_numeral_written sg ds sep fs) = spec_numeral_written sg ds sep fs"
    and "replace_char CHR '','' CHR ''.'' (spec_numeral_written sg ds sep fs) = spec_numeral sg ds fs"
proof -
  from wf obtain d ds' where dd: "ds = d # ds'" "is_digit d"
    by (cases ds) (auto simp: wf_numeral_def)
  from wf have sg: "sg = [] \<or> sg = ''+'' \<or> sg = ''-''"
    and dig: "\<forall>c\<in>set ds. is_digit c" "\<forall>c\<in>set fs. is_digit c"
    by (auto simp: wf_numeral_def)
  show "spec_numeral_written sg ds sep fs \<noteq> []" by (simp add: spec_numeral_written_def dd)
  have "hd (spec_numeral_written sg ds sep fs) \<in> {d, CHR ''+'', CHR ''-''}"
    using sg by (auto simp: spec_numeral_written_def dd)
  moreover have "\<not> py_isspace CHR ''+''" "\<not> py_isspace CHR ''-''"
    by (simp_all add: py_isspace_def)
  ultimately show "\<not> py_isspace (hd (spec_numeral_written sg ds sep fs))"
    using digit_facts(1) [OF dd(2)] by auto
  have low: "py_lower_char CHR ''+'' = CHR ''+''" "py_lower_char CHR ''-'' = CHR ''-''"
    "py_lower_char CHR ''.'' = CHR ''.''" "py_lower_char CHR '','' = CHR '',''"
    by (simp_all add: py_lower_char_def)
  have lds: "map py_lower_char ds = ds" "map py_lower_char fs = fs"
    using dig digit_facts(2) by (auto intro: map_idI)
  have lsg: "map py_lower_char sg = sg" using sg low by auto
  show "map py_lower_char (spec_numeral_written sg ds sep fs) = spec_numeral_written sg ds sep fs"
    using sep by (auto simp: spec_numeral_written_def lds lsg low)
  have rds: "replace_char CHR '','' CHR ''.'' ds = ds" "replace_char CHR '','' CHR ''.'' fs = fs"
    unfolding replace_char_def using dig digit_facts(3) by (auto intro: map_idI)
  have rsg: "replace_char CHR '','' CHR ''.'' sg = sg"
    using sg by (auto simp: replace_char_def)
  have rapp: "replace_char a b (xs @ ys) = replace_char a b xs @ replace_char a b ys"
    for a b xs ys by (simp add: replace_char_def)
  have rsep: "replace_char CHR '','' CHR ''.'' (sep # fs) = CHR ''.'' # fs"
    using sep rds(2) by (auto simp: replace_char_def)
  show "replace_char CHR '','' CHR ''.'' (spec_numeral_written sg ds sep fs) = spec_numeral sg ds fs"
    by (simp add: spec_numeral_written_def spec_numeral_def rapp rds rsg rsep)
       (simp add: replace_char_def)
qed

lemma upper_table:
  "ascii_upper CHR ''m'' = CHR ''M''" "ascii_upper CHR ''e'' = CHR ''E''"
  "ascii_upper CHR ''s'' = CHR ''S''" "ascii_upper CHR ''o'' = CHR ''O''"
  "ascii_upper CHR ''a'' = CHR ''A''" "ascii_upper CHR ''n'' = CHR ''N''"
  "ascii_upper CHR ''y'' = CHR ''Y''" "ascii_upper CHR ''r'' = CHR ''R''"
  "ascii_upper CHR ''d'' = CHR ''D''" "ascii_upper CHR ''i'' = CHR ''I''"
  by (simp_all add: ascii_upper_def)

lemma upper_facts:
  assumes "b \<in> set ''mesoanyrdi''"
  shows "py_lower_char (ascii_upper b) = b" "\<not> py_isspace (ascii_upper b)"
proof -
  from assms consider "b = CHR ''m''" | "b = CHR ''e''" | "b = CHR ''s''" | "b = CHR ''o''"
    | "b = CHR ''a''" | "b = CHR ''n''" | "b = CHR ''y''" | "b = CHR ''r''" | "b = CHR ''d''"
    | "b = CHR ''i''"
    by auto
  then have "py_lower_char (ascii_upper b) = b \<and> \<not> py_isspace (ascii_upper b)"
    by cases (simp_all add: upper_table py_lower_char_def py_isspace_def char_of_eq)
  then show "py_lower_char (ascii_upper b) = b" "\<not> py_isspace (ascii_upper b)"
    by blast+
qed

lemma case_variant_facts:
  assumes "case_variant U u" "set u \<subseteq> set ''mesoanyrdi''"
  shows "map py_lower_char U = u \<and> (\<forall>c\<in>set U. \<not> py_isspace c) \<and> (U = [] \<longleftrightarrow> u = [])"
  using assms unfolding case_variant_def
proof (induction rule: list_all2_induct)
  case Nil
  then show ?case by simp
next
  case (Cons a U b u)
  then have b: "b \<in> set ''mesoanyrdi''" by simp
  from Cons have "a = b \<or> a = ascii_upper b" by simp
  then have "py_lower_char a = b \<and> \<not> py_isspace a"
    using upper_facts [OF b] unit_char_facts(1,3) [OF b] by auto
  with Cons show ?case by simp
qed

lemma blank_facts: "c \<in> spec_blanks \<Longrightarrow> py_isspace c"
  by (auto simp: spec_blanks_def py_isspace_def)

lemma strip_around:
  assumes "\<forall>c\<in>set ws1. py_isspace c" "\<forall>c\<in>set ws2. py_isspace c" "core \<noteq> []"
    "\<not> py_isspace (hd core)" "\<not> py_isspace (last core)"
  shows "strip (ws1 @ core @ ws2) = core"
proof -
  have "dropWhile py_isspace (core @ ws2) = core @ ws2"
    using assms(3,4) by (cases core) auto
  moreover have "dropWhile py_isspace (ws1 @ core @ ws2) = dropWhile py_isspace (core @ ws2)"
    using assms(1) by (intro dropWhile_append2) simp
  ultimately have 1: "dropWhile py_isspace (ws1 @ core @ ws2) = core @ ws2" by simp
  have "dropWhile py_isspace (rev core) = rev core"
    using assms(3,5) by (cases "rev core") (auto simp: hd_rev)
  moreover have "dropWhile py_isspace (rev ws2 @ rev core) = dropWhile py_isspace (rev core)"
    using assms(2) by (intro dropWhile_append2) simp
  ultimately have 2: "dropWhile py_isspace (rev ws2 @ rev core) = rev core" by simp
  show ?thesis unfolding strip_def 1 by (simp add: 2)
qed

lemma normalise_written:
  assumes wf: "wf_numeral sg ds fs" and sep: "sep = CHR ''.'' \<or> sep = CHR '',''"
    and g: "g \<noteq> []" "set g \<subseteq> {CHR '' ''}"
    and u: "u \<noteq> []" "set u \<subseteq> set ''mesoanyrdi''" and U: "case_variant U u"
    and ws: "set ws1 \<subseteq> spec_blanks" "set ws2 \<subseteq> spec_blanks"
  shows "normalise (ws1 @ spec_numeral_written sg ds sep fs @ g @ U @ ws2)
           = spec_numeral sg ds fs @ g @ u"
    and "lower (strip (ws1 @ spec_numeral_written sg ds sep fs @ g @ U @ ws2)) \<noteq> []"
proof -
  let ?N = "spec_numeral_written sg ds sep fs"
  let ?core = "?N @ g @ U"
  note N = written_numeral [OF wf sep]
  from case_variant_facts [OF U u(2)]
  have lU: "map py_lower_char U = u" and sU: "\<forall>c\<in>set U. \<not> py_isspace c"
    and eU: "U = [] \<longleftrightarrow> u = []"
    by blast+
  from eU u(1) have Une: "U \<noteq> []" by simp
  then have "last U \<in> set U" by simp
  with sU have "\<not> py_isspace (last U)" by blast
  moreover have "last ?core = last U" using Une by simp
  ultimately have lastc: "\<not> py_isspace (last ?core)" by simp
  have hdc: "\<not> py_isspace (hd ?core)" using N(1,2) by simp
  have cne: "?core \<noteq> []" using N(1) by simp
  have w1: "\<forall>c\<in>set ws1. py_isspace c" using ws(1) blank_facts by blast
  have w2: "\<forall>c\<in>set ws2. py_isspace c" using ws(2) blank_facts by blast
  have "strip (ws1 @ ?core @ ws2) = ?core"
    by (rule strip_around [OF w1 w2 cne hdc lastc])
  then have strip: "strip (ws1 @ ?N @ g @ U @ ws2) = ?N @ g @ U" by simp
  have sp: "py_lower_char CHR '' '' = CHR '' ''" by (simp add: py_lower_char_def)
  have gl: "\<forall>c\<in>set g. py_lower_char c = c"
  proof
    fix c assume "c \<in> set g"
    with g(2) have "c = CHR '' ''" by blast
    then show "py_lower_char c = c" by (simp only: sp)
  qed
  have gr: "\<forall>c\<in>set g. c \<noteq> CHR '',''"
  proof
    fix c assume "c \<in> set g"
    with g(2) have "c = CHR '' ''" by blast
    then show "c \<noteq> CHR '',''" by simp
  qed
  have lg: "map py_lower_char g = g" using gl by (intro map_idI) blast
  have lower: "lower (?N @ g @ U) = ?N @ g @ u"
    by (simp add: lower_def N(3) lg lU)
  have rg: "replace_char CHR '','' CHR ''.'' g = g"
    unfolding replace_char_def using gr by (intro map_idI) simp
  have "\<forall>c\<in>set u. c \<noteq> CHR '',''" using u(2) unit_char_facts(2) by blast
  then have ru: "replace_char CHR '','' CHR ''.'' u = u"
    unfolding replace_char_def by (intro map_idI) simp
  have rapp: "replace_char CHR '','' CHR ''.'' (?N @ g @ u)
      = replace_char CHR '','' CHR ''.'' ?N @ replace_char CHR '','' CHR ''.'' g
        @ replace_char CHR '','' CHR ''.'' u"
    by (simp add: replace_char_def)
  show "normalise (ws1 @ ?N @ g @ U @ ws2) = spec_numeral sg ds fs @ g @ u"
    unfolding normalise_def strip lower rapp N(4) rg ru ..
  show "lower (strip (ws1 @ ?N @ g @ U @ ws2)) \<noteq> []"
    unfolding strip lower using N(1) by simp
qed

lemma parse_unfold:
  "parse_tempo_validade_to_days (Some v) =
     (if lower (strip v) = [] then None
      else case re_search_number (normalise v) of
             None \<Rightarrow> None
           | Some m \<Rightarrow>
               if month_indicator (normalise v) then Some (float_of m * 30.4375)
               else if year_indicator (normalise v) then Some (float_of m * 365)
               else if day_indicator (normalise v) then Some (float_of m)
               else None)"
  by (simp add: parse_tempo_validade_to_days_def Let_def normalise_def month_indicator_def
      year_indicator_def day_indicator_def split: option.splits)

lemma indicators_numeral:
  assumes wf: "wf_numeral sg ds fs" and g: "g \<noteq> []" "set g \<subseteq> {CHR '' ''}"
  shows "month_indicator (spec_numeral sg ds fs @ g @ u) =
           (is_in ''mes'' u \<or> search_word_from ''mo'' (Some CHR '' '') u)"
    and "year_indicator (spec_numeral sg ds fs @ g @ u) =
           (is_in ''ano'' u \<or> is_in ''anos'' u \<or> is_in ''year'' u)"
    and "day_indicator (spec_numeral sg ds fs @ g @ u) =
           (is_in ''dia'' u \<or> is_in ''dias'' u \<or> search_word_from ''d'' (Some CHR '' '') u)"
proof -
  let ?xs = "spec_numeral sg ds fs @ g"
  have eq: "spec_numeral sg ds fs @ g @ u = ?xs @ u" by simp
  have no: "a \<notin> set ?xs" if "a \<in> set ''mesoanyrdi''" for a
    using numeral_chars [OF wf g(2)] num_char_facts(3) that by blast
  have m: "CHR ''m'' \<notin> set ?xs" and a: "CHR ''a'' \<notin> set ?xs" and y: "CHR ''y'' \<notin> set ?xs"
    and d: "CHR ''d'' \<notin> set ?xs"
    by (rule no, simp)+
  have "last ?xs = last g" using g(1) by simp
  moreover have "last g = CHR '' ''" using g last_in_set by blast
  ultimately have l: "(if ?xs = [] then None else Some (last ?xs)) = Some CHR '' ''"
    using g(1) by simp
  show "month_indicator (spec_numeral sg ds fs @ g @ u) =
           (is_in ''mes'' u \<or> search_word_from ''mo'' (Some CHR '' '') u)"
    unfolding month_indicator_def re_search_word_def eq
    by (simp only: is_in_skip [OF m] search_word_skip [OF m] l)
  show "year_indicator (spec_numeral sg ds fs @ g @ u) =
           (is_in ''ano'' u \<or> is_in ''anos'' u \<or> is_in ''year'' u)"
    unfolding year_indicator_def eq
    by (simp only: is_in_skip [OF a] is_in_skip [OF y])
  show "day_indicator (spec_numeral sg ds fs @ g @ u) =
           (is_in ''dia'' u \<or> is_in ''dias'' u \<or> search_word_from ''d'' (Some CHR '' '') u)"
    unfolding day_indicator_def re_search_word_def eq
    by (simp only: is_in_skip [OF d] search_word_skip [OF d] l)
qed

lemma parse_written:
  assumes wf: "wf_numeral sg ds fs" and sep: "sep = CHR ''.'' \<or> sep = CHR '',''"
    and g: "g \<noteq> []" "set g \<subseteq> {CHR '' ''}"
    and u: "u \<noteq> []" "set u \<subseteq> set ''mesoanyrdi''" and U: "case_variant U u"
    and ws: "set ws1 \<subseteq> spec_blanks" "set ws2 \<subseteq> spec_blanks"
  shows "parse_tempo_validade_to_days
           (Some (ws1 @ spec_numeral_written sg ds sep fs @ g @ U @ ws2)) =
     (if is_in ''mes'' u \<or> search_word_from ''mo'' (Some CHR '' '') u
      then Some (spec_number sg ds fs * 30.4375)
      else if is_in ''ano'' u \<or> is_in ''anos'' u \<or> is_in ''year'' u
      then Some (spec_number sg ds fs * 365)
      else if is_in ''dia'' u \<or> is_in ''dias'' u \<or> search_word_from ''d'' (Some CHR '' '') u
      then Some (spec_number sg ds fs)
      else None)"
proof -
  note n = normalise_written [OF wf sep g u U ws]
  obtain g' where g': "g = CHR '' '' # g'"
    using g by (cases g) auto
  have found: "re_search_number (spec_numeral sg ds fs @ g @ u) = Some (spec_numeral sg ds fs)"
    using re_search_number_numeral [OF wf, of "g' @ u"] by (simp add: g')
  show ?thesis
    unfolding parse_unfold n(1)
    by (simp only: n(2) if_False found option.case
          float_of_numeral [OF wf] indicators_numeral [OF wf g])
qed

lemma units_eval:
  "u \<in> set month_units \<Longrightarrow> u \<noteq> [] \<and> set u \<subseteq> set ''mesoanyrdi''
      \<and> (is_in ''mes'' u \<or> search_word_from ''mo'' (Some CHR '' '') u)"
  "u \<in> set year_units \<Longrightarrow> u \<noteq> [] \<and> set u \<subseteq> set ''mesoanyrdi''
      \<and> \<not> (is_in ''mes'' u \<or> search_word_from ''mo'' (Some CHR '' '') u)
      \<and> (is_in ''ano'' u \<or> is_in ''anos'' u \<or> is_in ''year'' u)"
  "u \<in> set day_units \<Longrightarrow> u \<noteq> [] \<and> set u \<subseteq> set ''mesoanyrdi''
      \<and> \<not> (is_in ''mes'' u \<or> search_word_from ''mo'' (Some CHR '' '') u)
      \<and> \<not> (is_in ''ano'' u \<or> is_in ''anos'' u \<or> is_in ''year'' u)
      \<and> (is_in ''dia'' u \<or> is_in ''dias'' u \<or> search_word_from ''d'' (Some CHR '' '') u)"
  by (auto simp: month_units_def year_units_def day_units_def word_at_def boundary_def
      is_word_char_def)


lemma strip_blank:
  assumes "\<forall>c\<in>set v. py_isspace c"
  shows "strip v = []"
proof -
  from assms have d: "dropWhile py_isspace v = []" by (induction v) auto
  show ?thesis unfolding strip_def d by simp
qed

lemma lower_not_digit:
  assumes "\<not> is_digit c"
  shows "\<not> is_digit (py_lower_char c)"
proof (cases "py_lower_char c = c")
  case True
  with assms show ?thesis by simp
next
  case False
  then have l: "py_lower_char c = char_of (of_char c + 32 :: nat)"
    and b: "65 \<le> (of_char c :: nat)" "(of_char c :: nat) \<le> 222"
    by (auto simp: py_lower_char_def Let_def split: if_splits)
  from b have "(of_char c + 32 :: nat) mod 256 = of_char c + 32" by simp
  with b show ?thesis by (simp add: is_digit_def l)
qed

lemma normalise_no_digit:
  assumes "\<forall>c\<in>set v. \<not> is_digit c"
  shows "\<forall>c\<in>set (normalise v). \<not> is_digit c"
proof -
  have "set (strip v) \<subseteq> set (dropWhile py_isspace v)"
    unfolding strip_def using set_dropWhileD [of _ py_isspace "rev (dropWhile py_isspace v)"]
    by auto
  then have "set (strip v) \<subseteq> set v"
    using set_dropWhileD [of _ py_isspace v] by blast
  with assms have "\<forall>c\<in>set (lower (strip v)). \<not> is_digit c"
    by (auto simp: lower_def lower_not_digit)
  moreover have "\<not> is_digit CHR ''.''" by (simp add: is_digit_def)
  ultimately show ?thesis by (auto simp: normalise_def replace_char_def)
qed

lemma match_number_digit:
  "is_digit c \<Longrightarrow> match_number (c # cs) \<noteq> None"
  using digit_facts(4,5) [of c]
  by (auto simp: match_number_def Let_def split: list.splits)

lemma match_number_no_digit:
  assumes "\<forall>c\<in>set s. \<not> is_digit c"
  shows "match_number s = None"
proof -
  have tw: "takeWhile is_digit t = []" if "set t \<subseteq> set s" for t
    using that assms by (cases t) auto
  show ?thesis
  proof (cases s)
    case Nil
    then show ?thesis by (simp add: match_number_def)
  next
    case (Cons a t)
    then have "takeWhile is_digit t = []" "takeWhile is_digit (a # t) = []"
      using tw [of t] tw [of s] by auto
    then show ?thesis unfolding match_number_def Cons
      by (simp add: Let_def split: if_splits)
  qed
qed

lemma re_search_number_None:
  "(re_search_number s = None) = (\<forall>c\<in>set s. \<not> is_digit c)"
proof (induction s)
  case Nil
  then show ?case by simp
next
  case (Cons c cs)
  show ?case
  proof (cases "match_number (c # cs)")
    case None
    then have "\<not> is_digit c" using match_number_digit by blast
    with None Cons show ?thesis by simp
  next
    case (Some m)
    then have "\<not> (\<forall>x\<in>set (c # cs). \<not> is_digit x)"
      using match_number_no_digit by fastforce
    with Some show ?thesis by simp
  qed
qed

text \<open>
  C4. For every duration string made of a numeral (an optional sign, digits, and
  optionally a dot or a comma and more digits), one or more spaces and a unit word in
  lower or upper case, with or without blanks around it, the parser returns the value
  of the numeral times 1 for a day unit (\<open>dia\<close>, \<open>dias\<close>, \<open>d\<close>), times 30.4375 for a
  month unit (\<open>mes\<close>, \<open>meses\<close>, \<open>mo\<close>) and times 365 for a year unit (\<open>ano\<close>, \<open>anos\<close>,
  \<open>year\<close>). For every string in which a number is found, the unit indicators are tested
  on the normalised string in the order month (\<open>mes\<close> occurs, or \<open>mo\<close> occurs as a
  whole word), year (\<open>ano\<close>, \<open>anos\<close> or \<open>year\<close> occurs), day (\<open>dia\<close> or \<open>dias\<close> occurs, or
  \<open>d\<close> occurs as a whole word), and the first that holds gives the factor. For a
  missing or blank input, for a string with no digit and for a string with no unit
  indicator the result is undefined.
\<close>

theorem C4_parse_shelf_life:
  "(wf_numeral sg ds fs \<and> (sep = CHR ''.'' \<or> sep = CHR '','')
      \<and> g \<noteq> [] \<and> set g \<subseteq> {CHR '' ''} \<and> case_variant U u
      \<and> set ws1 \<subseteq> spec_blanks \<and> set ws2 \<subseteq> spec_blanks \<longrightarrow>
      (u \<in> set day_units \<longrightarrow>
         parse_tempo_validade_to_days
           (Some (ws1 @ spec_numeral_written sg ds sep fs @ g @ U @ ws2))
           = Some (spec_number sg ds fs * 1))
    \<and> (u \<in> set month_units \<longrightarrow>
         parse_tempo_validade_to_days
           (Some (ws1 @ spec_numeral_written sg ds sep fs @ g @ U @ ws2))
           = Some (spec_number sg ds fs * 30.4375))
    \<and> (u \<in> set year_units \<longrightarrow>
         parse_tempo_validade_to_days
           (Some (ws1 @ spec_numeral_written sg ds sep fs @ g @ U @ ws2))
           = Some (spec_number sg ds fs * 365)))
   \<and> (re_search_number (normalise v) = Some m \<longrightarrow>
         parse_tempo_validade_to_days (Some v) =
           (if sublist ''mes'' (normalise v) \<or> spec_word_in ''mo'' (normalise v)
            then Some (float_of m * 30.4375)
            else if sublist ''ano'' (normalise v) \<or> sublist ''anos'' (normalise v)
                    \<or> sublist ''year'' (normalise v)
            then Some (float_of m * 365)
            else if sublist ''dia'' (normalise v) \<or> sublist ''dias'' (normalise v)
                    \<or> spec_word_in ''d'' (normalise v)
            then Some (float_of m)
            else None))
   \<and> parse_tempo_validade_to_days None = None
   \<and> ((\<forall>c\<in>set v. py_isspace c) \<longrightarrow> parse_tempo_validade_to_days (Some v) = None)
   \<and> ((\<forall>c\<in>set v. \<not> is_digit c) \<longrightarrow> parse_tempo_validade_to_days (Some v) = None)
   \<and> (\<not> (sublist ''mes'' (normalise v) \<or> spec_word_in ''mo'' (normalise v))
        \<and> \<not> (sublist ''ano'' (normalise v) \<or> sublist ''anos'' (normalise v)
               \<or> sublist ''year'' (normalise v))
        \<and> \<not> (sublist ''dia'' (normalise v) \<or> sublist ''dias'' (normalise v)
               \<or> spec_word_in ''d'' (normalise v))
       \<longrightarrow> parse_tempo_validade_to_days (Some v) = None)"
proof -
  have units: "parse_tempo_validade_to_days
                 (Some (ws1 @ spec_numeral_written sg ds sep fs @ g @ U @ ws2))
               = Some (spec_number sg ds fs * k)"
    if "wf_numeral sg ds fs" "sep = CHR ''.'' \<or> sep = CHR '',''" "g \<noteq> []"
      "set g \<subseteq> {CHR '' ''}" "case_variant U u" "set ws1 \<subseteq> spec_blanks"
      "set ws2 \<subseteq> spec_blanks"
      and "u \<in> set day_units \<and> k = 1 \<or> u \<in> set month_units \<and> k = 30.4375
           \<or> u \<in> set year_units \<and> k = 365" for k
  proof -
    from that(8) have u: "u \<noteq> []" "set u \<subseteq> set ''mesoanyrdi''"
      using units_eval [of u] by blast+
    show ?thesis
      using that(8) units_eval [of u]
        parse_written [OF that(1,2,3,4) u that(5,6,7)] by auto
  qed
  have found: "parse_tempo_validade_to_days (Some v) =
           (if month_indicator (normalise v) then Some (float_of m * 30.4375)
            else if year_indicator (normalise v) then Some (float_of m * 365)
            else if day_indicator (normalise v) then Some (float_of m)
            else None)"
    if "re_search_number (normalise v) = Some m"
  proof -
    from that have "normalise v \<noteq> []" by auto
    then have "lower (strip v) \<noteq> []" by (auto simp: normalise_def replace_char_def)
    with that show ?thesis by (simp add: parse_unfold)
  qed
  have none: "parse_tempo_validade_to_days None = None"
    by (simp add: parse_tempo_validade_to_days_def)
  have blank: "parse_tempo_validade_to_days (Some v) = None" if "\<forall>c\<in>set v. py_isspace c"
    using strip_blank [OF that] by (simp add: parse_unfold lower_def)
  have nonum: "parse_tempo_validade_to_days (Some v) = None" if "\<forall>c\<in>set v. \<not> is_digit c"
    using normalise_no_digit [OF that] re_search_number_None [of "normalise v"]
    by (simp add: parse_unfold)
  have nounit: "parse_tempo_validade_to_days (Some v) = None"
    if "\<not> month_indicator (normalise v) \<and> \<not> year_indicator (normalise v)
        \<and> \<not> day_indicator (normalise v)"
    using that by (simp add: parse_unfold split: option.splits)
  show ?thesis
    unfolding indicators_spec [of "normalise v", symmetric]
  proof (intro conjI impI)
    assume a: "wf_numeral sg ds fs \<and> (sep = CHR ''.'' \<or> sep = CHR '','')
      \<and> g \<noteq> [] \<and> set g \<subseteq> {CHR '' ''} \<and> case_variant U u
      \<and> set ws1 \<subseteq> spec_blanks \<and> set ws2 \<subseteq> spec_blanks"
    {
      assume "u \<in> set day_units"
      with a show "parse_tempo_validade_to_days
           (Some (ws1 @ spec_numeral_written sg ds sep fs @ g @ U @ ws2))
           = Some (spec_number sg ds fs * 1)"
        by (intro units) simp_all
    next
      assume "u \<in> set month_units"
      with a show "parse_tempo_validade_to_days
           (Some (ws1 @ spec_numeral_written sg ds sep fs @ g @ U @ ws2))
           = Some (spec_number sg ds fs * 30.4375)"
        by (intro units) simp_all
    next
      assume "u \<in> set year_units"
      with a show "parse_tempo_validade_to_days
           (Some (ws1 @ spec_numeral_written sg ds sep fs @ g @ U @ ws2))
           = Some (spec_number sg ds fs * 365)"
        by (intro units) simp_all
    }
  next
    assume "re_search_number (normalise v) = Some m"
    then show "parse_tempo_validade_to_days (Some v) =
           (if month_indicator (normalise v) then Some (float_of m * 30.4375)
            else if year_indicator (normalise v) then Some (float_of m * 365)
            else if day_indicator (normalise v) then Some (float_of m)
            else None)"
      by (rule found)
  next
    show "parse_tempo_validade_to_days None = None" by (rule none)
  next
    assume "\<forall>c\<in>set v. py_isspace c"
    then show "parse_tempo_validade_to_days (Some v) = None" by (rule blank)
  next
    assume "\<forall>c\<in>set v. \<not> is_digit c"
    then show "parse_tempo_validade_to_days (Some v) = None" by (rule nonum)
  next
    assume "\<not> month_indicator (normalise v) \<and> \<not> year_indicator (normalise v)
        \<and> \<not> day_indicator (normalise v)"
    then show "parse_tempo_validade_to_days (Some v) = None" by (rule nounit)
  qed
qed

theorem C4_parse_shelf_life_witness:
  "wf_numeral ''-'' ''12'' ''5'' \<and> case_variant ''MESES'' ''meses''
   \<and> case_variant ''Anos'' ''anos'' \<and> case_variant ''D'' ''d''
   \<and> ''meses'' \<in> set month_units \<and> ''anos'' \<in> set year_units \<and> ''d'' \<in> set day_units
   \<and> parse_tempo_validade_to_days (Some ('' -12,5  MESES'' @ [CHR 0x09]))
       = Some (- 12.5 * 30.4375)
   \<and> parse_tempo_validade_to_days (Some ''-12.5 Anos'') = Some (- 12.5 * 365)
   \<and> parse_tempo_validade_to_days (Some ''-12,5 D'') = Some (- 12.5)
   \<and> re_search_number (normalise ''1 dia do mes'') = Some ''1''
   \<and> parse_tempo_validade_to_days (Some ''1 dia do mes'') = Some 30.4375
   \<and> parse_tempo_validade_to_days (Some ''   '') = None
   \<and> parse_tempo_validade_to_days (Some ''abc'') = None
   \<and> parse_tempo_validade_to_days (Some ''12'') = None"
proof -
  note ev = lower_def strip_def replace_char_def py_isspace_def py_lower_char_def
    is_digit_def match_number_def float_of_def digits_value_def re_search_word_def
    word_at_def boundary_def is_word_char_def normalise_def month_indicator_def
    year_indicator_def day_indicator_def
  have wf: "wf_numeral ''-'' ''12'' ''5''"
    by (simp add: wf_numeral_def is_digit_def)
  have cv: "case_variant ''MESES'' ''meses''" "case_variant ''Anos'' ''anos''"
    "case_variant ''D'' ''d''"
    by (simp_all add: case_variant_def ascii_upper_def)
  have us: "''meses'' \<in> set month_units" "''anos'' \<in> set year_units"
    "''d'' \<in> set day_units"
    by (simp_all add: month_units_def year_units_def day_units_def)
  have bl: "set '' '' \<subseteq> spec_blanks" "set [CHR 0x09] \<subseteq> spec_blanks"
    "set ([] :: string) \<subseteq> spec_blanks"
    by (simp_all add: spec_blanks_def)
  have num: "spec_numeral_written ''-'' ''12'' CHR '','' ''5'' = ''-12,5''"
    "spec_numeral_written ''-'' ''12'' CHR ''.'' ''5'' = ''-12.5''"
    "spec_number ''-'' ''12'' ''5'' = - 12.5"
    by (simp_all add: spec_numeral_written_def spec_number_def digits_value_def)
  have found: "re_search_number (normalise ''1 dia do mes'') = Some ''1''"
    "month_indicator (normalise ''1 dia do mes'')" "float_of ''1'' = 1"
    by (simp_all add: ev)
  have blank: "\<forall>c\<in>set ''   ''. py_isspace c" by (simp add: py_isspace_def)
  have nodigit: "\<forall>c\<in>set ''abc''. \<not> is_digit c" by (simp add: is_digit_def)
  have nounit: "\<not> month_indicator (normalise ''12'')" "\<not> year_indicator (normalise ''12'')"
    "\<not> day_indicator (normalise ''12'')"
    by (simp_all add: ev)
  have p1: "parse_tempo_validade_to_days (Some ('' -12,5  MESES'' @ [CHR 0x09]))
              = Some (- 12.5 * 30.4375)"
    using C4_parse_shelf_life [where sg = "''-''" and ds = "''12''" and fs = "''5''"
        and sep = "CHR '',''" and g = "''  ''" and U = "''MESES''" and u = "''meses''"
        and ?ws1.0 = "'' ''" and ?ws2.0 = "[CHR 0x09]"] wf cv us bl
    by (simp add: num)
  have p2: "parse_tempo_validade_to_days (Some ''-12.5 Anos'') = Some (- 12.5 * 365)"
    using C4_parse_shelf_life [where sg = "''-''" and ds = "''12''" and fs = "''5''"
        and sep = "CHR ''.''" and g = "'' ''" and U = "''Anos''" and u = "''anos''"
        and ?ws1.0 = "[]" and ?ws2.0 = "[]"] wf cv us bl
    by (simp add: num)
  have p3: "parse_tempo_validade_to_days (Some ''-12,5 D'') = Some (- 12.5)"
    using C4_parse_shelf_life [where sg = "''-''" and ds = "''12''" and fs = "''5''"
        and sep = "CHR '',''" and g = "'' ''" and U = "''D''" and u = "''d''"
        and ?ws1.0 = "[]" and ?ws2.0 = "[]"] wf cv us bl
    by (simp add: num)
  have p4: "parse_tempo_validade_to_days (Some ''1 dia do mes'') = Some 30.4375"
    using C4_parse_shelf_life [where v = "''1 dia do mes''" and m = "''1''"] found
    by (simp add: indicators_spec [symmetric])
  have p5: "parse_tempo_validade_to_days (Some ''   '') = None"
    using C4_parse_shelf_life [where v = "''   ''"] blank by blast
  have p6: "parse_tempo_validade_to_days (Some ''abc'') = None"
    using C4_parse_shelf_life [where v = "''abc''"] nodigit by blast
  have p7: "parse_tempo_validade_to_days (Some ''12'') = None"
    using C4_parse_shelf_life [where v = "''12''"] nounit
    by (simp add: indicators_spec [symmetric])
  show ?thesis
    using wf cv us found(1) p1 p2 p3 p4 p5 p6 p7 by blast
qed

section \<open>Properties of the integration\<close>

lemma drop_duplicates_last_set:
  "set (map key (drop_duplicates_last key xs)) = set (map key xs)"
  by (induction xs) auto

lemma drop_duplicates_last_distinct:
  "distinct (map key (drop_duplicates_last key xs))"
proof (induction xs)
  case Nil
  then show ?case by simp
next
  case (Cons x xs)
  then show ?case
    using drop_duplicates_last_set [of key xs] by auto
qed

lemma drop_duplicates_first_subset:
  "set (drop_duplicates_first key xs) \<subseteq> set xs"
  by (induction key xs rule: drop_duplicates_first.induct) auto

lemma drop_duplicates_first_distinct:
  "distinct (map key (drop_duplicates_first key xs))"
proof (induction key xs rule: drop_duplicates_first.induct)
  case (1 key)
  then show ?case by simp
next
  case (2 key x xs)
  have "key x \<notin> key ` set (drop_duplicates_first key (filter (\<lambda>y. key y \<noteq> key x) xs))"
    using drop_duplicates_first_subset [of key "filter (\<lambda>y. key y \<noteq> key x) xs"] by auto
  with 2 show ?case by simp
qed

lemma filter_key_distinct:
  "distinct (map kr right) \<Longrightarrow> length (filter (\<lambda>r. kr r = k) right) \<le> 1"
proof (induction right)
  case Nil
  then show ?case by simp
next
  case (Cons r right)
  show ?case
  proof (cases "kr r = k")
    case True
    with Cons.prems have "filter (\<lambda>r. kr r = k) right = []"
      by (auto simp: filter_empty_conv image_iff)
    with True show ?thesis by simp
  next
    case False
    with Cons show ?thesis by simp
  qed
qed

lemma merge_left_length:
  assumes "distinct (map kr right)"
  shows "length (merge_left kl kr join left right) = length left"
proof -
  have one: "length (case filter (\<lambda>r. kr r = kl l) right of
                       [] \<Rightarrow> [join l None]
                     | ms \<Rightarrow> map (\<lambda>r. join l (Some r)) ms) = 1" for l
    using filter_key_distinct [OF assms, of "kl l"]
    by (cases "filter (\<lambda>r. kr r = kl l) right") auto
  show ?thesis
    unfolding merge_left_def length_concat map_map comp_def one
    by (induction left) auto
qed

lemma sq00_sem_duplicatas_distinct:
  "distinct (map sq00_key (sq00_sem_duplicatas sq00))"
  unfolding sq00_sem_duplicatas_def by (rule drop_duplicates_last_distinct)

text \<open>
  C9. For every triple of extracts, the integrated frame has as many rows as the
  movements extract: both merges are left merges, and the right-hand sides have been
  de-duplicated on the merge key.
\<close>

theorem C9_row_count:
  "length (carregar_dados mb51 sq00 forn) = length mb51"
  unfolding carregar_dados_def Let_def
  by (simp add: merge_left_length sq00_sem_duplicatas_distinct drop_duplicates_first_distinct)

theorem C9_row_count_witness:
  "length (carregar_dados mb51_example sq00_two_dates [(''100'', Some ''12 meses'')])
     = length mb51_example
   \<and> length mb51_example = 2"
  using C9_row_count [of mb51_example sq00_two_dates "[(''100'', Some ''12 meses'')]"]
  by (simp add: mb51_example_def)

lemma drop_duplicates_last_subset:
  "set (drop_duplicates_last key xs) \<subseteq> set xs"
  by (induction xs) auto

lemma drop_duplicates_last_latest:
  assumes "sorted (map k xs)" "r \<in> set (drop_duplicates_last key xs)" "x \<in> set xs"
    "key x = key r"
  shows "k x \<le> k r"
  using assms
proof (induction xs)
  case Nil
  then show ?case by simp
next
  case (Cons a rest)
  show ?case
  proof (cases "key a \<in> set (map key rest)")
    case True
    with Cons.prems have r: "r \<in> set (drop_duplicates_last key rest)" by simp
    then have "r \<in> set rest" using drop_duplicates_last_subset [of key rest] by auto
    with Cons.prems(1) have "k a \<le> k r" by auto
    moreover have "k x \<le> k r" if "x \<in> set rest"
      using Cons.IH r that Cons.prems by simp
    ultimately show ?thesis using Cons.prems(3) by auto
  next
    case False
    with Cons.prems have "r = a \<or> r \<in> set (drop_duplicates_last key rest)" by simp
    then show ?thesis
    proof
      assume ra: "r = a"
      have "x \<notin> set rest"
      proof
        assume "x \<in> set rest"
        then have "key x \<in> set (map key rest)" by simp
        with False Cons.prems(4) ra show False by simp
      qed
      with Cons.prems(3) ra show ?thesis by simp
    next
      assume r: "r \<in> set (drop_duplicates_last key rest)"
      then have "r \<in> set rest" using drop_duplicates_last_subset [of key rest] by auto
      with False Cons.prems(4) have "x \<noteq> a" by auto
      with Cons.prems(3) have "x \<in> set rest" by simp
      with Cons.IH r Cons.prems show ?thesis by simp
    qed
  qed
qed

text \<open>
  When every record of the extract has a date, the record kept for a key has the
  latest date of the records of that key.
\<close>

lemma sq00_sem_duplicatas_latest:
  assumes "\<forall>x\<in>set sq00. sq00_date x \<noteq> None"
    and "r \<in> set (sq00_sem_duplicatas sq00)"
    and "x \<in> set (map (\<lambda>(m, l, d). (clean_key m, clean_key l, d)) sq00)"
    and "sq00_key x = sq00_key r"
  shows "\<exists>a b. sq00_date x = Some a \<and> sq00_date r = Some b \<and> a \<le> b"
proof -
  let ?c = "map (\<lambda>(m, l, d). (clean_key m, clean_key l, d)) sq00"
  let ?k = "\<lambda>r. case sq00_date r of Some t \<Rightarrow> t | None \<Rightarrow> 0"
  have all: "\<forall>y\<in>set ?c. sq00_date y \<noteq> None"
    using assms(1) by (auto simp: sq00_date_def)
  then have s: "sort_values ?c = sort_key ?k ?c"
    by (simp add: sort_values_def filter_empty_conv)
  have "sorted (map ?k (sort_values ?c))" unfolding s by (rule sorted_sort_key)
  moreover have "r \<in> set (drop_duplicates_last sq00_key (sort_values ?c))"
    using assms(2) by (simp add: sq00_sem_duplicatas_def)
  moreover have x: "x \<in> set (sort_values ?c)" using assms(3) unfolding s by simp
  ultimately have le: "?k x \<le> ?k r"
    using drop_duplicates_last_latest [of ?k "sort_values ?c" r sq00_key x] assms(4)
    by blast
  have "r \<in> set ?c"
    using assms(2) drop_duplicates_last_subset [of sq00_key "sort_values ?c"]
    unfolding sq00_sem_duplicatas_def s by auto
  with all assms(3) have "sq00_date x \<noteq> None" "sq00_date r \<noteq> None" by blast+
  then obtain a b where "sq00_date x = Some a" "sq00_date r = Some b" by auto
  with le show ?thesis by simp
qed

text \<open>
  C6, where the code departs from the claim. Two expiration records share the key
  (\<open>100\<close>, \<open>A\<close>), one with the date 2024-01-01 and one with no date (a cell that did not
  parse): the record kept is the one with no date, not the one with the latest date.
\<close>

theorem C6_missing_date_kept:
  "sq00_sem_duplicatas sq00_missing_date = [(''100'', ''A'', None)]"
  by (simp add: sq00_sem_duplicatas_def sq00_missing_date_def sort_values_def sq00_date_def
      sq00_key_def clean_key_def strip_def py_isspace_def)

lemma sq00_two_dates_kept:
  "sq00_sem_duplicatas sq00_two_dates = [(''100'', ''A'', Some (Timestamp 2024 3 1))]"
proof -
  have "Timestamp 2024 1 1 \<le> Timestamp 2024 3 1" "Timestamp 2024 1 1 \<noteq> Timestamp 2024 3 1"
    by (simp_all add: Timestamp_def days_from_civil_def ns_per_day_def)
  then show ?thesis
    by (simp add: sq00_sem_duplicatas_def sq00_two_dates_def sort_values_def sq00_date_def
        sq00_key_def clean_key_def strip_def py_isspace_def)
qed

section \<open>Properties of the filter engine\<close>

lemma subseq_mask: "subseq (map snd (filter fst (zip msk xs))) xs"
proof (induction xs arbitrary: msk)
  case Nil
  then show ?case by simp
next
  case (Cons x xs)
  show ?case
  proof (cases msk)
    case Nil
    then show ?thesis by simp
  next
    case (Cons m ms)
    with Cons.IH [of ms] show ?thesis by (cases m) auto
  qed
qed

text \<open>
  C7. With no active filter in the requested scope, \<^verbatim>\<open>apply_filters\<close> returns the frame
  it was given and an empty list of descriptions: for the initial (all-empty) state and
  for every state whose five filters are empty, whatever the scope; for the scope
  \<open>global\<close> when the search text and the depot selection are empty; for the scope
  \<open>chart\<close> when the three chart selections are empty; and for any other scope than
  \<open>all\<close>, \<open>global\<close> and \<open>chart\<close>.
\<close>

theorem C7_no_filter_identity:
  "apply_filters re_compile initial_filter_state df filter_source = Inr (df, [])
   \<and> (search_query fs = [] \<and> depot_filter fs = []
        \<and> \<not> truthy (status_filter_from_chart fs)
        \<and> \<not> truthy (status_tempo_filter_from_chart fs)
        \<and> \<not> truthy (problem_type_filter_from_chart fs)
       \<longrightarrow> apply_filters re_compile fs df filter_source = Inr (df, []))
   \<and> (filter_source = ''global'' \<and> search_query fs = [] \<and> depot_filter fs = []
       \<longrightarrow> apply_filters re_compile fs df filter_source = Inr (df, []))
   \<and> (filter_source = ''chart''
        \<and> \<not> truthy (status_filter_from_chart fs)
        \<and> \<not> truthy (status_tempo_filter_from_chart fs)
        \<and> \<not> truthy (problem_type_filter_from_chart fs)
       \<longrightarrow> apply_filters re_compile fs df filter_source = Inr (df, []))
   \<and> (filter_source \<notin> {''all'', ''global'', ''chart''}
       \<longrightarrow> apply_filters re_compile fs df filter_source = Inr (df, []))"
  by (auto simp: apply_filters_def has_filters_def initial_filter_state_def truthy_def)

theorem C7_no_filter_identity_witness:
  "apply_filters (\<lambda>q. None) initial_filter_state df_example ''all'' = Inr (df_example, [])
   \<and> search_query (depot_state\<lparr>depot_filter := []\<rparr>) = []
   \<and> apply_filters (\<lambda>q. None) (depot_state\<lparr>depot_filter := []\<rparr>) df_example ''all''
       = Inr (df_example, [])
   \<and> apply_filters (\<lambda>q. None) depot_state df_example ''chart'' = Inr (df_example, [])
   \<and> apply_filters (\<lambda>q. None) chart_state df_example ''global'' = Inr (df_example, [])
   \<and> apply_filters (\<lambda>q. None) depot_state df_example ''tab'' = Inr (df_example, [])"
proof -
  have e: "search_query (depot_state\<lparr>depot_filter := []\<rparr>) = []"
    "depot_filter (depot_state\<lparr>depot_filter := []\<rparr>) = []"
    "\<not> truthy (status_filter_from_chart (depot_state\<lparr>depot_filter := []\<rparr>))"
    "\<not> truthy (status_tempo_filter_from_chart (depot_state\<lparr>depot_filter := []\<rparr>))"
    "\<not> truthy (problem_type_filter_from_chart (depot_state\<lparr>depot_filter := []\<rparr>))"
    "\<not> truthy (status_filter_from_chart depot_state)"
    "\<not> truthy (status_tempo_filter_from_chart depot_state)"
    "\<not> truthy (problem_type_filter_from_chart depot_state)"
    "search_query chart_state = []" "depot_filter chart_state = []"
    by (simp_all add: depot_state_def chart_state_def initial_filter_state_def truthy_def)
  show ?thesis
    using C7_no_filter_identity [where re_compile = "\<lambda>q. None" and df = df_example
        and filter_source = "''all''" and fs = "depot_state\<lparr>depot_filter := []\<rparr>"]
      C7_no_filter_identity [where re_compile = "\<lambda>q. None" and df = df_example
        and filter_source = "''chart''" and fs = depot_state]
      C7_no_filter_identity [where re_compile = "\<lambda>q. None" and df = df_example
        and filter_source = "''tab''" and fs = depot_state]
      C7_no_filter_identity [where re_compile = "\<lambda>q. None" and df = df_example
        and filter_source = "''global''" and fs = chart_state]
      e
    by simp
qed

lemma bind_err_Inr:
  "bind_err m f = Inr y \<Longrightarrow> \<exists>x. m = Inr x \<and> f x = Inr y"
  by (cases m) (simp_all add: bind_err_def)

text \<open>
  C10. Whenever \<^verbatim>\<open>apply_filters\<close> returns, for every frame, filter state and scope, the
  rows of the frame returned are a subsequence of the rows of the frame given (rows of
  the input, unaltered, none repeated, in their order) and the columns are the same. It
  returns (it raises no error) when the frame has the columns \<open>Status\<close>,
  \<open>Status_Tempo\<close>, \<open>Deposito\<close>, \<open>Material\<close> and \<open>Descricao\<close> and the search text
  compiles.
\<close>

theorem C10_output_subsequence:
  "(apply_filters re_compile fs df filter_source = Inr (out, applied)
      \<longrightarrow> subseq (rows out) (rows df) \<and> columns out = columns df)
   \<and> (set [''Status'', ''Status_Tempo'', ''Deposito'', ''Material'', ''Descricao'']
         \<subseteq> set (columns df)
       \<and> re_compile (search_query fs) \<noteq> None
      \<longrightarrow> (\<exists>res. apply_filters re_compile fs df filter_source = Inr res))"
proof (rule conjI; rule impI)
  assume a: "apply_filters re_compile fs df filter_source = Inr (out, applied)"
  show "subseq (rows out) (rows df) \<and> columns out = columns df"
  proof (cases "has_filters fs filter_source")
    case False
    with a show ?thesis by (simp add: apply_filters_def)
  next
    case True
    from a [unfolded apply_filters_def] True
    obtain s3 s4 s5 where
      "(case s5 of (msk, applied_filters) \<Rightarrow>
          Inr (if length applied_filters = 0 then df
               else df\<lparr>rows := map snd (filter fst (zip msk (rows df)))\<rparr>,
               applied_filters)) = (Inr (out, applied) :: py_error + dataframe \<times> string list)"
      by (auto dest!: bind_err_Inr)
    then obtain msk where
      "out = df \<or> out = df\<lparr>rows := map snd (filter fst (zip msk (rows df)))\<rparr>"
      by (cases s5) (auto split: if_splits)
    then show ?thesis using subseq_mask [of msk "rows df"] by auto
  qed
next
  assume b: "set [''Status'', ''Status_Tempo'', ''Deposito'', ''Material'', ''Descricao'']
               \<subseteq> set (columns df) \<and> re_compile (search_query fs) \<noteq> None"
  then obtain found where f: "re_compile (search_query fs) = Some found" by auto
  from b have c: "''Status'' \<in> set (columns df)" "''Status_Tempo'' \<in> set (columns df)"
    "''Deposito'' \<in> set (columns df)" "''Material'' \<in> set (columns df)"
    "''Descricao'' \<in> set (columns df)"
    by simp_all
  have ms: "\<exists>s'. mask_step df c test d s = Inr s'" if "c \<in> set (columns df)" for c test d s
    using that by (simp add: mask_step_def bind_err_def col_values_def)
  have cf: "\<exists>s'. chart_filter df v c l s = Inr s'" if "c \<in> set (columns df)" for v c l s
    using ms [OF that] by (auto simp: chart_filter_def split: option.splits)
  have ss: "\<exists>s'. search_step re_compile df (search_query fs) s = Inr s'" for s
    by (simp add: search_step_def bind_err_def col_values_def f Let_def c)
  have chart: "\<exists>s'. chart_block fs df filter_source s = Inr s'" for s
  proof -
    obtain s1 where s1: "chart_filter df (status_filter_from_chart fs) ''Status''
                           ''Status: '' s = Inr s1"
      using cf [OF c(1)] by blast
    obtain s2 where s2: "chart_filter df (status_tempo_filter_from_chart fs) ''Status_Tempo''
                           ''Temporal Status: '' s1 = Inr s2"
      using cf [OF c(2)] by blast
    have "\<exists>s'. (if ''Tipo_Problema'' \<in> set (columns df)
                 then chart_filter df (problem_type_filter_from_chart fs)
                        ''Tipo_Problema'' ''Problem Type: '' s2
                 else Inr s2) = Inr s'"
      using cf [of "''Tipo_Problema''"] by (cases "''Tipo_Problema'' \<in> set (columns df)") simp_all
    then show ?thesis
      by (cases "filter_source \<in> set [''all'', ''chart'']")
         (simp_all add: chart_block_def s1 s2 bind_err_def del: set_simps)
  qed
  have depot: "\<exists>s'. depot_block fs df filter_source s = Inr s'" for s
    unfolding depot_block_def using ms [OF c(3)] by (simp only: split: if_split) blast
  have search: "\<exists>s'. search_block re_compile fs df filter_source s = Inr s'" for s
    unfolding search_block_def using ss [of s] by (simp only: split: if_split) blast
  obtain s3 where s3: "chart_block fs df filter_source
                         (replicate (length (rows df)) True, []) = Inr s3"
    using chart by blast
  obtain s4 where s4: "depot_block fs df filter_source s3 = Inr s4"
    using depot by blast
  obtain s5 where s5: "search_block re_compile fs df filter_source s4 = Inr s5"
    using search by blast
  show "\<exists>res. apply_filters re_compile fs df filter_source = Inr res"
    unfolding apply_filters_def
    by (cases s5) (simp add: s3 s4 s5 bind_err_def)
qed

lemma depot_example_run:
  "apply_filters (\<lambda>q. Some (\<lambda>s. False)) depot_state df_example ''all''
     = Inr (df_example\<lparr>rows := [rows df_example ! 0, rows df_example ! 2]\<rparr>, [''Depot: D1''])"
  by (simp add: apply_filters_def has_filters_def depot_state_def initial_filter_state_def
      truthy_def chart_block_def depot_block_def search_block_def chart_filter_def
      mask_step_def col_values_def bind_err_def df_example_def cell_of_def)

theorem C10_output_subsequence_witness:
  "apply_filters (\<lambda>q. Some (\<lambda>s. False)) depot_state df_example ''all''
     = Inr (df_example\<lparr>rows := [rows df_example ! 0, rows df_example ! 2]\<rparr>, [''Depot: D1''])
   \<and> subseq [rows df_example ! 0, rows df_example ! 2] (rows df_example)
   \<and> set [''Status'', ''Status_Tempo'', ''Deposito'', ''Material'', ''Descricao'']
        \<subseteq> set (columns df_example)
   \<and> (\<exists>res. apply_filters (\<lambda>q. Some (\<lambda>s. False)) depot_state df_example ''all'' = Inr res)"
proof -
  have c: "set [''Status'', ''Status_Tempo'', ''Deposito'', ''Material'', ''Descricao'']
        \<subseteq> set (columns df_example)"
    by (simp add: df_example_def)
  show ?thesis
    using C10_output_subsequence [where re_compile = "\<lambda>q. Some (\<lambda>s. False)"
        and fs = depot_state and df = df_example and filter_source = "''all''"
        and out = "df_example\<lparr>rows := [rows df_example ! 0, rows df_example ! 2]\<rparr>"
        and applied = "[''Depot: D1'']"]
      depot_example_run c
    by simp
qed

end
